theory Spec2Isabelle
  imports Complex_Main "HOL-Library.Monad_Syntax"
begin

section \<open>Numbers\<close>

text \<open>
  A JavaScript \<^verbatim>\<open>number\<close> is modelled as a mathematical \<^typ>\<open>real\<close>: the rounding error of
  IEEE doubles is abstracted away, and the literals \<^verbatim>\<open>0.1\<close>, \<^verbatim>\<open>0.2\<close>, \<^verbatim>\<open>0.3\<close>, \<^verbatim>\<open>1.5\<close> ... are
  the rationals they denote. JavaScript division never raises: a zero divisor gives
  \<^verbatim>\<open>Infinity\<close> or \<^verbatim>\<open>NaN\<close>. Neither is a real number, so the quotient is a partial operation
  and a function that performs it returns an option: \<open>None\<close> means that a division by zero
  took the computation out of the real numbers. A division whose divisor is a nonzero
  literal, or is guarded by an explicit test in the source, is written with \<open>/\<close>.
\<close>

definition js_div :: "real \<Rightarrow> real \<Rightarrow> real option" where
  "js_div a b = (if b = 0 then None else Some (a / b))"

text \<open>\<^verbatim>\<open>Math.round\<close>: the nearest integer, a tie going up.\<close>

definition Math_round :: "real \<Rightarrow> real" where
  "Math_round v = of_int \<lfloor>v + 1 / 2\<rfloor>"

text \<open>
  \<^verbatim>\<open>s && s > c\<close> for an optional number \<^verbatim>\<open>s\<close>: \<^verbatim>\<open>undefined\<close> and \<^verbatim>\<open>0\<close> are falsy.
\<close>

definition score_above :: "real \<Rightarrow> real option \<Rightarrow> bool" where
  "score_above c s = (case s of None \<Rightarrow> False | Some v \<Rightarrow> v \<noteq> 0 \<and> v > c)"

section \<open>Data model\<close>

text \<open>
  The detector's keypoint (\<^verbatim>\<open>Keypoint\<close> of the pose-detection library): \<^verbatim>\<open>x\<close>, \<^verbatim>\<open>y\<close>, and the
  optional \<^verbatim>\<open>score\<close> and \<^verbatim>\<open>name\<close>. The fields carry a prefix because \<open>x\<close>, \<open>y\<close> and
  \<open>score\<close> are needed as names elsewhere.
\<close>

record Keypoint =
  kp_x :: real
  kp_y :: real
  kp_score :: "real option"
  kp_name :: "string option"

text \<open>
  Of a detected \<^verbatim>\<open>Pose\<close> the code reads \<^verbatim>\<open>keypoints\<close> only, and it tests the field for
  absence (\<^verbatim>\<open>!pose.keypoints\<close>), so the field is optional here.
\<close>

record Pose =
  pose_keypoints :: "Keypoint list option"

record Point =
  pt_x :: real
  pt_y :: real

text \<open>
  \<^verbatim>\<open>PoseTemplate\<close> (PoseSelector.tsx). The object \<^verbatim>\<open>keypoints\<close> is the list of its
  properties in the order of \<^verbatim>\<open>Object.keys\<close>, which for names that are not array indices is
  the order of declaration; the keys of an object are distinct.
\<close>

record PoseTemplate =
  template_id :: string
  template_name :: string
  description :: string
  image :: string
  template_keypoints :: "(string \<times> Point) list"

definition Object_keys :: "(string \<times> 'a) list \<Rightarrow> string list" where
  "Object_keys obj = map fst obj"

record PoseScoreResult =
  score :: real
  matchedKeypoints :: nat
  totalKeypoints :: nat
  missingKeypoints :: "string list"

section \<open>scorePose (utils/poseScoring.ts)\<close>

text \<open>
  The \<^verbatim>\<open>Map\<close> built by the first \<^verbatim>\<open>forEach\<close>: a keypoint is stored under its name when the
  name is truthy (present and not the empty string) and the score is truthy and above
  \<^verbatim>\<open>0.3\<close>; a later keypoint of the same name replaces an earlier one.
\<close>

definition keypointMap_set :: "Keypoint \<Rightarrow> (string \<rightharpoonup> Keypoint) \<Rightarrow> (string \<rightharpoonup> Keypoint)" where
  "keypointMap_set keypoint m =
     (case kp_name keypoint of
        None \<Rightarrow> m
      | Some n \<Rightarrow> if n \<noteq> [] \<and> score_above (3 / 10) (kp_score keypoint) then m(n \<mapsto> keypoint) else m)"

definition keypointMap :: "Keypoint list \<Rightarrow> (string \<rightharpoonup> Keypoint)" where
  "keypointMap ks = fold keypointMap_set ks Map.empty"

text \<open>
  The weight table, and \<^verbatim>\<open>keypointWeights[keypointName] || 1.0\<close>: an unlisted name, or a
  listed weight that is falsy (\<^verbatim>\<open>0\<close>), gives \<^verbatim>\<open>1.0\<close>. Properties inherited from
  \<^verbatim>\<open>Object.prototype\<close> are not modelled: part names are body-part names.
\<close>

definition keypointWeights :: "(string \<times> real) list" where
  "keypointWeights =
     [(''nose'', 1.0),
      (''left_eye'', 0.8),
      (''right_eye'', 0.8),
      (''left_ear'', 0.7),
      (''right_ear'', 0.7),
      (''left_shoulder'', 1.5),
      (''right_shoulder'', 1.5),
      (''left_elbow'', 1.5),
      (''right_elbow'', 1.5),
      (''left_wrist'', 1.5),
      (''right_wrist'', 1.5),
      (''left_hip'', 0.8),
      (''right_hip'', 0.8),
      (''left_knee'', 0.6),
      (''right_knee'', 0.6),
      (''left_ankle'', 0.4),
      (''right_ankle'', 0.4)]"

definition weight_of :: "string \<Rightarrow> real" where
  "weight_of keypointName =
     (case map_of keypointWeights keypointName of
        None \<Rightarrow> 1.0
      | Some v \<Rightarrow> if v = 0 then 1.0 else v)"

text \<open>
  The distance of a detected keypoint from the template target: the target is scaled to
  pixels, and each axis difference is divided by the image dimension before squaring.
\<close>

definition distance :: "Point \<Rightarrow> Keypoint \<Rightarrow> real \<Rightarrow> real \<Rightarrow> real option" where
  "distance target detectedKeypoint imageWidth imageHeight =
     (let templateX = pt_x target * imageWidth;
          templateY = pt_y target * imageHeight;
          detectedX = kp_x detectedKeypoint;
          detectedY = kp_y detectedKeypoint
      in do {
        dx \<leftarrow> js_div (templateX - detectedX) imageWidth;
        dy \<leftarrow> js_div (templateY - detectedY) imageHeight;
        Some (sqrt (dx ^ 2 + dy ^ 2))
      })"

text \<open>\<^verbatim>\<open>Math.max(0, 1 - distance * 5)\<close>\<close>

definition keypointScore :: "real \<Rightarrow> real" where
  "keypointScore d = max 0 (1 - d * 5)"

text \<open>The variables that the loop over the template's parts updates.\<close>

record Tally =
  matched :: "string list"
  missing :: "string list"
  totalScore :: real
  totalWeight :: real

text \<open>
  The body of \<^verbatim>\<open>templateKeypointNames.forEach\<close>. The name comes from
  \<^verbatim>\<open>Object.keys(template.keypoints)\<close>, so \<^verbatim>\<open>template.keypoints[keypointName]\<close> is the value
  declared with it, and the loop runs over the pairs.
\<close>

fun checkKeypoints ::
  "(string \<rightharpoonup> Keypoint) \<Rightarrow> real \<Rightarrow> real \<Rightarrow> (string \<times> Point) list \<Rightarrow> Tally \<Rightarrow> Tally option" where
  "checkKeypoints m imageWidth imageHeight [] t = Some t"
| "checkKeypoints m imageWidth imageHeight ((keypointName, target) # rest) t =
     (let weight = weight_of keypointName;
          t1 = t\<lparr>totalWeight := totalWeight t + weight\<rparr>
      in case m keypointName of
           Some detectedKeypoint \<Rightarrow>
             (case distance target detectedKeypoint imageWidth imageHeight of
                None \<Rightarrow> None
              | Some d \<Rightarrow>
                  checkKeypoints m imageWidth imageHeight rest
                    (t1\<lparr>totalScore := totalScore t1 + keypointScore d * weight,
                        matched := matched t1 @ [keypointName]\<rparr>))
         | None \<Rightarrow>
             checkKeypoints m imageWidth imageHeight rest
               (t1\<lparr>missing := missing t1 @ [keypointName]\<rparr>))"

definition scorePose :: "Pose \<Rightarrow> PoseTemplate \<Rightarrow> real \<Rightarrow> real \<Rightarrow> PoseScoreResult option" where
  "scorePose pose template imageWidth imageHeight =
     (let templateKeypointNames = Object_keys (template_keypoints template);
          noPose = \<lparr>score = 0, matchedKeypoints = 0,
                    totalKeypoints = length templateKeypointNames,
                    missingKeypoints = templateKeypointNames\<rparr>
      in case pose_keypoints pose of
           None \<Rightarrow> Some noPose
         | Some [] \<Rightarrow> Some noPose
         | Some ks \<Rightarrow>
             (case checkKeypoints (keypointMap ks) imageWidth imageHeight
                     (template_keypoints template)
                     \<lparr>matched = [], missing = [], totalScore = 0, totalWeight = 0\<rparr> of
                None \<Rightarrow> None
              | Some t \<Rightarrow>
                  (let finalScore =
                         (if totalWeight t > 0 then (totalScore t / totalWeight t) * 100 else 0)
                   in Some \<lparr>score = Math_round finalScore,
                            matchedKeypoints = length (matched t),
                            totalKeypoints = length templateKeypointNames,
                            missingKeypoints = missing t\<rparr>)))"

section \<open>getPoseFeedback (utils/poseScoring.ts)\<close>

text \<open>
  \<^verbatim>\<open>kp.replace('_', ' ')\<close> with a string pattern replaces the first occurrence only;
  \<^verbatim>\<open>join(', ')\<close> puts the separator between the elements.
\<close>

fun replace_underscore :: "string \<Rightarrow> string" where
  "replace_underscore [] = []"
| "replace_underscore (c # cs) =
     (if c = CHR ''_'' then CHR '' '' # cs else c # replace_underscore cs)"

fun join_comma :: "string list \<Rightarrow> string" where
  "join_comma [] = []"
| "join_comma [s] = s"
| "join_comma (s # rest) = s @ '', '' @ join_comma rest"

definition upperBodyKeypoints :: "string list" where
  "upperBodyKeypoints =
     [''left_shoulder'', ''right_shoulder'', ''left_elbow'', ''right_elbow'',
      ''left_wrist'', ''right_wrist'']"

definition lowerBodyKeypoints :: "string list" where
  "lowerBodyKeypoints = [''left_hip'', ''right_hip'', ''left_knee'', ''right_knee'']"

text \<open>The overall score feedback: the first \<^verbatim>\<open>if\<close> chain.\<close>

definition overallFeedback :: "real \<Rightarrow> string" where
  "overallFeedback s =
     (if s \<ge> 95 then ''Perfect! You've mastered this pose.''
      else if s \<ge> 80 then ''Great job! Your pose is very close to perfect.''
      else if s \<ge> 60 then ''Good effort! Keep adjusting to improve your score.''
      else if s \<ge> 40 then
        ''You're on the right track. Try to align your body more closely with the template.''
      else ''Keep practicing! Try to match the pose template more closely.'')"

text \<open>The missing keypoints feedback: the block under \<^verbatim>\<open>missingKeypoints.length > 0\<close>.\<close>

definition missingFeedback :: "PoseScoreResult \<Rightarrow> PoseTemplate \<Rightarrow> string list" where
  "missingFeedback scoreResult template =
     (if length (missingKeypoints scoreResult) > 0 then
        (let missingUpperBodyKeypoints =
               filter (\<lambda>kp. kp \<in> set upperBodyKeypoints) (missingKeypoints scoreResult);
             upper =
               (if length missingUpperBodyKeypoints > 0 then
                  (let readableKeypoints = map replace_underscore missingUpperBodyKeypoints
                   in if length readableKeypoints \<le> 3 then
                        [''Make sure your '' @ join_comma readableKeypoints @
                         '' are visible to the camera.'']
                      else
                        [''Several key upper body parts aren't visible. Try adjusting your position.''])
                else []);
             lower =
               (if template_id template = ''front-double-biceps'' \<or>
                   template_id template = ''front-lat-spread'' then
                  (let missingLowerBodyKeypoints =
                         filter (\<lambda>kp. kp \<in> set lowerBodyKeypoints) (missingKeypoints scoreResult)
                   in if length missingLowerBodyKeypoints > 0 \<and> score scoreResult < 70 then
                        [''For a complete pose, try to include your lower body in the frame if possible.'']
                      else [])
                else [])
         in upper @ lower)
      else [])"

text \<open>The pose-specific feedback: the \<^verbatim>\<open>switch\<close> on \<^verbatim>\<open>template.id\<close>.\<close>

definition poseSpecificFeedback :: "PoseScoreResult \<Rightarrow> PoseTemplate \<Rightarrow> string list" where
  "poseSpecificFeedback scoreResult template =
     (if template_id template = ''front-double-biceps'' then
        (if score scoreResult < 70 then
           [''Remember to keep your arms bent and biceps flexed. Face directly toward the camera.'']
         else [])
      else if template_id template = ''side-chest'' then
        (if score scoreResult < 70 then
           [''Turn to the side more and bring your arm across your chest to emphasize your pectoral muscles.'']
         else [])
      else if template_id template = ''rear-lat-spread'' then
        (if score scoreResult < 70 then
           [''Face away from the camera and spread your arms wider to showcase your back width.'']
         else [])
      else if template_id template = ''front-lat-spread'' then
        (if score scoreResult < 70 then
           [''Spread your arms wider and push your lats out to create the illusion of a wider upper body.'']
         else [])
      else if template_id template = ''most-muscular'' then
        (if score scoreResult < 70 then
           [''Bring your shoulders forward and flex all muscle groups simultaneously for maximum definition.'']
         else [])
      else [])"

definition getPoseFeedback :: "PoseScoreResult \<Rightarrow> PoseTemplate \<Rightarrow> string list" where
  "getPoseFeedback scoreResult template =
     [overallFeedback (score scoreResult)]
     @ missingFeedback scoreResult template
     @ poseSpecificFeedback scoreResult template"

section \<open>analyzePose (hooks/usePoseDetection.ts)\<close>

datatype PoseMode = fitness | photography

datatype Severity = info | warning | error | success

record PoseFeedback =
  message :: string
  severity :: Severity
  part :: "string option"

text \<open>
  \<^verbatim>\<open>new Map(keypoints.map(keypoint => [keypoint.name, keypoint]))\<close>: the key is the optional
  name, and a later keypoint of the same name replaces an earlier one.
\<close>

definition nameMap :: "Keypoint list \<Rightarrow> (string option \<rightharpoonup> Keypoint)" where
  "nameMap keypoints = fold (\<lambda>keypoint m. m(kp_name keypoint \<mapsto> keypoint)) keypoints Map.empty"

text \<open>
  The feedback items pushed so far together with the flag \<^verbatim>\<open>isPerfect\<close>; every check that
  fires pushes its item and clears the flag.
\<close>

type_synonym Checks = "PoseFeedback list \<times> bool"

definition push :: "PoseFeedback \<Rightarrow> Checks \<Rightarrow> Checks" where
  "push item st = (fst st @ [item], False)"

text \<open>
  \<^verbatim>\<open>Math.abs((right.y - left.y) / Math.max(0.1, right.x - left.x))\<close>, the expression of the
  shoulder, hip, knee and eye checks.
\<close>

definition slope :: "Keypoint \<Rightarrow> Keypoint \<Rightarrow> real option" where
  "slope left right =
     do {
       q \<leftarrow> js_div (kp_y right - kp_y left) (max (1 / 10) (kp_x right - kp_x left));
       Some \<bar>q\<bar>
     }"

text \<open>
  A levelness check: with both keypoints present, the item is pushed when the slope
  exceeds \<^verbatim>\<open>0.1\<close>.
\<close>

definition levelCheck ::
  "Keypoint option \<Rightarrow> Keypoint option \<Rightarrow> PoseFeedback \<Rightarrow> Checks \<Rightarrow> Checks option" where
  "levelCheck left right item st =
     (case (left, right) of
        (Some l, Some r) \<Rightarrow>
          do { s \<leftarrow> slope l r; Some (if s > 1 / 10 then push item st else st) }
      | _ \<Rightarrow> Some st)"

text \<open>
  The shoulder check of either mode (``Upper body feedback''); the modes differ in the
  message.
\<close>

definition upperBodyFeedback ::
  "(string \<Rightarrow> Keypoint option) \<Rightarrow> bool \<Rightarrow> string \<Rightarrow> Checks \<Rightarrow> Checks option" where
  "upperBodyFeedback getKeypoint hasUpperBody msg st =
     (if hasUpperBody then
        levelCheck (getKeypoint ''left_shoulder'') (getKeypoint ''right_shoulder'')
          \<lparr>message = msg, severity = info, part = Some ''shoulders''\<rparr> st
      else Some st)"

text \<open>``Lower body feedback if visible'': hips, then knees when both are visible.\<close>

definition lowerBodyFeedback ::
  "(string \<Rightarrow> Keypoint option) \<Rightarrow> bool \<Rightarrow> Checks \<Rightarrow> Checks option" where
  "lowerBodyFeedback getKeypoint hasLowerBody st =
     (if hasLowerBody then
        do {
          a \<leftarrow> levelCheck (getKeypoint ''left_hip'') (getKeypoint ''right_hip'')
                 \<lparr>message = ''Try to level your hips'', severity = info,
                  part = Some ''hips''\<rparr> st;
          levelCheck (getKeypoint ''left_knee'') (getKeypoint ''right_knee'')
            \<lparr>message = ''Try to level your knees'', severity = info,
             part = Some ''knees''\<rparr> a
        }
      else Some st)"

text \<open>``Check back posture if both upper and lower body are visible''.\<close>

definition backPostureFeedback ::
  "(string \<Rightarrow> Keypoint option) \<Rightarrow> bool \<Rightarrow> bool \<Rightarrow> Checks \<Rightarrow> Checks" where
  "backPostureFeedback getKeypoint hasUpperBody hasLowerBody st =
     (if hasUpperBody \<and> hasLowerBody then
        (case (getKeypoint ''left_shoulder'', getKeypoint ''right_shoulder'',
               getKeypoint ''left_hip'', getKeypoint ''right_hip'') of
           (Some leftShoulder, Some rightShoulder, Some leftHip, Some rightHip) \<Rightarrow>
             (let shoulderCenter_x = (kp_x leftShoulder + kp_x rightShoulder) / 2;
                  hipCenter_x = (kp_x leftHip + kp_x rightHip) / 2;
                  verticalAlignment = \<bar>shoulderCenter_x - hipCenter_x\<bar>
              in if verticalAlignment > 1 / 10 then
                   push \<lparr>message = ''Try to align your shoulders over your hips'',
                         severity = info, part = Some ''back''\<rparr> st
                 else st)
         | _ \<Rightarrow> st)
      else st)"

text \<open>``Face positioning feedback'': the eye line, then the position of the nose.\<close>

definition faceFeedback :: "(string \<Rightarrow> Keypoint option) \<Rightarrow> bool \<Rightarrow> Checks \<Rightarrow> Checks option" where
  "faceFeedback getKeypoint hasFace st =
     (if hasFace then
        do {
          a \<leftarrow> levelCheck (getKeypoint ''left_eye'') (getKeypoint ''right_eye'')
                 \<lparr>message = ''Try to level your head for a better pose'', severity = info,
                  part = Some ''head''\<rparr> st;
          Some
            (case getKeypoint ''nose'' of
               Some nose \<Rightarrow>
                 (let centerX = 1 / 2;
                      distanceFromCenter = \<bar>kp_x nose - centerX\<bar>
                  in if distanceFromCenter > 2 / 10 then
                       push \<lparr>message = ''Try to center your face in the frame'',
                             severity = info, part = Some ''position''\<rparr> a
                     else a)
             | None \<Rightarrow> a)
        }
      else Some st)"

text \<open>The branch \<^verbatim>\<open>mode === 'fitness'\<close>.\<close>

definition fitnessChecks ::
  "(string \<Rightarrow> Keypoint option) \<Rightarrow> bool \<Rightarrow> bool \<Rightarrow> Checks \<Rightarrow> Checks option" where
  "fitnessChecks getKeypoint hasUpperBody hasLowerBody st =
     do {
       st1 \<leftarrow> upperBodyFeedback getKeypoint hasUpperBody ''Try to level your shoulders'' st;
       st2 \<leftarrow> lowerBodyFeedback getKeypoint hasLowerBody st1;
       Some (backPostureFeedback getKeypoint hasUpperBody hasLowerBody st2)
     }"

text \<open>The branch \<^verbatim>\<open>mode === 'photography'\<close>.\<close>

definition photographyChecks ::
  "(string \<Rightarrow> Keypoint option) \<Rightarrow> bool \<Rightarrow> bool \<Rightarrow> Checks \<Rightarrow> Checks option" where
  "photographyChecks getKeypoint hasFace hasUpperBody st =
     do {
       st1 \<leftarrow> faceFeedback getKeypoint hasFace st;
       upperBodyFeedback getKeypoint hasUpperBody
         ''Level your shoulders for a more balanced pose'' st1
     }"

text \<open>The closing block: the positive feedback when nothing was pushed or the flag is set.\<close>

definition positiveFeedback :: "PoseMode \<Rightarrow> bool \<Rightarrow> bool \<Rightarrow> bool \<Rightarrow> PoseFeedback" where
  "positiveFeedback mode hasUpperBody hasLowerBody hasFace =
     (if hasUpperBody \<and> hasLowerBody then
        \<lparr>message = (if mode = fitness then ''PERFECT! Your form is excellent!''
                     else ''PERFECT! Your pose looks amazing!''),
         severity = success, part = None\<rparr>
      else if hasUpperBody then
        \<lparr>message = (if mode = fitness then ''PERFECT! Upper body form is excellent!''
                     else ''PERFECT! Upper body pose looks amazing!''),
         severity = success, part = None\<rparr>
      else if hasFace then
        \<lparr>message = ''PERFECT! Head position is excellent!'', severity = success, part = None\<rparr>
      else
        \<lparr>message =
           ''Some keypoints detected. Try to show more of your body for better feedback.'',
         severity = info, part = None\<rparr>)"

text \<open>
  \<^verbatim>\<open>analyzePose\<close> returns nothing and stores its list with \<^verbatim>\<open>setFeedback\<close>; the model returns
  the list that is stored. The parameter is typed \<^verbatim>\<open>Pose\<close>, so the test \<^verbatim>\<open>!pose\<close> is the
  test of the keypoints alone.
\<close>

definition analyzePose :: "Pose \<Rightarrow> PoseMode \<Rightarrow> PoseFeedback list option" where
  "analyzePose pose mode =
     (case pose_keypoints pose of
        None \<Rightarrow> Some [\<lparr>message = ''No pose detected'', severity = info, part = None\<rparr>]
      | Some all_keypoints \<Rightarrow>
          (let keypoints = filter (\<lambda>kp. score_above (2 / 10) (kp_score kp)) all_keypoints
           in if length keypoints < 3 then
                Some [\<lparr>message = ''Move closer to the camera or adjust lighting'',
                       severity = info, part = None\<rparr>]
              else
                (let getKeypoint = (\<lambda>n. nameMap keypoints (Some n));
                     hasUpperBody =
                       (getKeypoint ''left_shoulder'' \<noteq> None \<and>
                        getKeypoint ''right_shoulder'' \<noteq> None);
                     hasLowerBody =
                       (getKeypoint ''left_hip'' \<noteq> None \<and> getKeypoint ''right_hip'' \<noteq> None);
                     hasFace =
                       (getKeypoint ''nose'' \<noteq> None \<or>
                        (getKeypoint ''left_eye'' \<noteq> None \<and> getKeypoint ''right_eye'' \<noteq> None))
                 in do {
                      st \<leftarrow>
                        (case mode of
                           fitness \<Rightarrow> fitnessChecks getKeypoint hasUpperBody hasLowerBody ([], True)
                         | photography \<Rightarrow>
                             photographyChecks getKeypoint hasFace hasUpperBody ([], True));
                      Some
                        (if length (fst st) = 0 \<or> snd st then
                           fst st @ [positiveFeedback mode hasUpperBody hasLowerBody hasFace]
                         else fst st)
                    })))"

section \<open>The two functions with the arithmetic as a parameter\<close>

text \<open>
  The model above computes with real numbers: it rounds nothing, and it has no result where
  a quotient by zero leaves the real numbers, while the code goes on with \<^verbatim>\<open>Infinity\<close> or
  \<^verbatim>\<open>NaN\<close>. What does not depend on the values that the arithmetic yields is therefore
  stated for every arithmetic. A value of type \<open>'v\<close> is a JavaScript value, and every
  operation that the two functions apply to numbers is a field of the record: \<open>js_num\<close>
  gives the value of a numeric input or literal, \<open>js_square\<close> is \<^verbatim>\<open>Math.pow(_, 2)\<close>,
  \<open>js_gt\<close> is \<^verbatim>\<open>>\<close>, and \<open>js_inherited\<close> gives the member of \<^verbatim>\<open>Object.prototype\<close>
  that a property name reads when the object has no such property of its own. The functions
  below are the functions above with each operation replaced by its field; nothing is
  assumed of the fields.
\<close>

record 'v Arithmetic =
  js_num :: "real \<Rightarrow> 'v"
  js_add :: "'v \<Rightarrow> 'v \<Rightarrow> 'v"
  js_sub :: "'v \<Rightarrow> 'v \<Rightarrow> 'v"
  js_mul :: "'v \<Rightarrow> 'v \<Rightarrow> 'v"
  js_divide :: "'v \<Rightarrow> 'v \<Rightarrow> 'v"
  js_square :: "'v \<Rightarrow> 'v"
  js_sqrt :: "'v \<Rightarrow> 'v"
  js_abs :: "'v \<Rightarrow> 'v"
  js_max :: "'v \<Rightarrow> 'v \<Rightarrow> 'v"
  js_round :: "'v \<Rightarrow> 'v"
  js_gt :: "'v \<Rightarrow> 'v \<Rightarrow> bool"
  js_inherited :: "string \<Rightarrow> 'v option"

text \<open>\<^verbatim>\<open>s && s > c\<close> for the optional score of a keypoint.\<close>

definition score_above_js :: "'v Arithmetic \<Rightarrow> real \<Rightarrow> real option \<Rightarrow> bool" where
  "score_above_js A c s =
     (case s of None \<Rightarrow> False | Some v \<Rightarrow> v \<noteq> 0 \<and> js_gt A (js_num A v) (js_num A c))"

subsection \<open>scorePose\<close>

definition keypointMap_set_js ::
  "'v Arithmetic \<Rightarrow> Keypoint \<Rightarrow> (string \<rightharpoonup> Keypoint) \<Rightarrow> (string \<rightharpoonup> Keypoint)" where
  "keypointMap_set_js A keypoint m =
     (case kp_name keypoint of
        None \<Rightarrow> m
      | Some n \<Rightarrow>
          if n \<noteq> [] \<and> score_above_js A (3 / 10) (kp_score keypoint) then m(n \<mapsto> keypoint) else m)"

definition keypointMap_js :: "'v Arithmetic \<Rightarrow> Keypoint list \<Rightarrow> (string \<rightharpoonup> Keypoint)" where
  "keypointMap_js A ks = fold (keypointMap_set_js A) ks Map.empty"

definition detected_js :: "'v Arithmetic \<Rightarrow> Pose \<Rightarrow> (string \<rightharpoonup> Keypoint)" where
  "detected_js A pose =
     (case pose_keypoints pose of None \<Rightarrow> Map.empty | Some ks \<Rightarrow> keypointMap_js A ks)"

text \<open>
  \<^verbatim>\<open>keypointWeights[keypointName] || 1.0\<close>: the entry of the table; for a name that the
  table does not list, the member of \<^verbatim>\<open>Object.prototype\<close> of that name, which is a function
  or an object and so truthy; and \<^verbatim>\<open>1.0\<close> otherwise.
\<close>

definition weight_js :: "'v Arithmetic \<Rightarrow> string \<Rightarrow> 'v" where
  "weight_js A keypointName =
     (case map_of keypointWeights keypointName of
        Some v \<Rightarrow> if v = 0 then js_num A 1 else js_num A v
      | None \<Rightarrow>
          (case js_inherited A keypointName of
             Some member \<Rightarrow> member
           | None \<Rightarrow> js_num A 1))"

definition distance_js :: "'v Arithmetic \<Rightarrow> Point \<Rightarrow> Keypoint \<Rightarrow> real \<Rightarrow> real \<Rightarrow> 'v" where
  "distance_js A target detectedKeypoint imageWidth imageHeight =
     (let templateX = js_mul A (js_num A (pt_x target)) (js_num A imageWidth);
          templateY = js_mul A (js_num A (pt_y target)) (js_num A imageHeight);
          detectedX = js_num A (kp_x detectedKeypoint);
          detectedY = js_num A (kp_y detectedKeypoint)
      in js_sqrt A
           (js_add A
              (js_square A (js_divide A (js_sub A templateX detectedX) (js_num A imageWidth)))
              (js_square A (js_divide A (js_sub A templateY detectedY) (js_num A imageHeight)))))"

definition keypointScore_js :: "'v Arithmetic \<Rightarrow> 'v \<Rightarrow> 'v" where
  "keypointScore_js A d = js_max A (js_num A 0) (js_sub A (js_num A 1) (js_mul A d (js_num A 5)))"

record 'v Tally_js =
  matched_js :: "string list"
  missing_js :: "string list"
  totalScore_js :: 'v
  totalWeight_js :: 'v

fun checkKeypoints_js ::
  "'v Arithmetic \<Rightarrow> (string \<rightharpoonup> Keypoint) \<Rightarrow> real \<Rightarrow> real \<Rightarrow> (string \<times> Point) list \<Rightarrow>
   'v Tally_js \<Rightarrow> 'v Tally_js" where
  "checkKeypoints_js A m imageWidth imageHeight [] t = t"
| "checkKeypoints_js A m imageWidth imageHeight ((keypointName, target) # rest) t =
     (let weight = weight_js A keypointName;
          t1 = t\<lparr>totalWeight_js := js_add A (totalWeight_js t) weight\<rparr>
      in case m keypointName of
           Some detectedKeypoint \<Rightarrow>
             (let d = distance_js A target detectedKeypoint imageWidth imageHeight
              in checkKeypoints_js A m imageWidth imageHeight rest
                   (t1\<lparr>totalScore_js :=
                         js_add A (totalScore_js t1) (js_mul A (keypointScore_js A d) weight),
                       matched_js := matched_js t1 @ [keypointName]\<rparr>))
         | None \<Rightarrow>
             checkKeypoints_js A m imageWidth imageHeight rest
               (t1\<lparr>missing_js := missing_js t1 @ [keypointName]\<rparr>))"

record 'v PoseScoreResult_js =
  score_js :: 'v
  matchedKeypoints_js :: nat
  totalKeypoints_js :: nat
  missingKeypoints_js :: "string list"

definition scorePose_js ::
  "'v Arithmetic \<Rightarrow> Pose \<Rightarrow> PoseTemplate \<Rightarrow> real \<Rightarrow> real \<Rightarrow> 'v PoseScoreResult_js" where
  "scorePose_js A pose template imageWidth imageHeight =
     (let templateKeypointNames = Object_keys (template_keypoints template);
          noPose = \<lparr>score_js = js_num A 0, matchedKeypoints_js = 0,
                    totalKeypoints_js = length templateKeypointNames,
                    missingKeypoints_js = templateKeypointNames\<rparr>
      in case pose_keypoints pose of
           None \<Rightarrow> noPose
         | Some [] \<Rightarrow> noPose
         | Some ks \<Rightarrow>
             (let t = checkKeypoints_js A (keypointMap_js A ks) imageWidth imageHeight
                        (template_keypoints template)
                        \<lparr>matched_js = [], missing_js = [], totalScore_js = js_num A 0,
                         totalWeight_js = js_num A 0\<rparr>;
                  finalScore =
                    (if js_gt A (totalWeight_js t) (js_num A 0) then
                       js_mul A (js_divide A (totalScore_js t) (totalWeight_js t)) (js_num A 100)
                     else js_num A 0)
              in \<lparr>score_js = js_round A finalScore,
                  matchedKeypoints_js = length (matched_js t),
                  totalKeypoints_js = length templateKeypointNames,
                  missingKeypoints_js = missing_js t\<rparr>))"

subsection \<open>analyzePose\<close>

definition slope_js :: "'v Arithmetic \<Rightarrow> Keypoint \<Rightarrow> Keypoint \<Rightarrow> 'v" where
  "slope_js A left right =
     js_abs A
       (js_divide A
          (js_sub A (js_num A (kp_y right)) (js_num A (kp_y left)))
          (js_max A (js_num A (1 / 10))
             (js_sub A (js_num A (kp_x right)) (js_num A (kp_x left)))))"

definition levelCheck_js ::
  "'v Arithmetic \<Rightarrow> Keypoint option \<Rightarrow> Keypoint option \<Rightarrow> PoseFeedback \<Rightarrow> Checks \<Rightarrow> Checks" where
  "levelCheck_js A left right item st =
     (case (left, right) of
        (Some l, Some r) \<Rightarrow>
          if js_gt A (slope_js A l r) (js_num A (1 / 10)) then push item st else st
      | _ \<Rightarrow> st)"

definition upperBodyFeedback_js ::
  "'v Arithmetic \<Rightarrow> (string \<Rightarrow> Keypoint option) \<Rightarrow> bool \<Rightarrow> string \<Rightarrow> Checks \<Rightarrow> Checks" where
  "upperBodyFeedback_js A getKeypoint hasUpperBody msg st =
     (if hasUpperBody then
        levelCheck_js A (getKeypoint ''left_shoulder'') (getKeypoint ''right_shoulder'')
          \<lparr>message = msg, severity = info, part = Some ''shoulders''\<rparr> st
      else st)"

definition lowerBodyFeedback_js ::
  "'v Arithmetic \<Rightarrow> (string \<Rightarrow> Keypoint option) \<Rightarrow> bool \<Rightarrow> Checks \<Rightarrow> Checks" where
  "lowerBodyFeedback_js A getKeypoint hasLowerBody st =
     (if hasLowerBody then
        levelCheck_js A (getKeypoint ''left_knee'') (getKeypoint ''right_knee'')
          \<lparr>message = ''Try to level your knees'', severity = info, part = Some ''knees''\<rparr>
          (levelCheck_js A (getKeypoint ''left_hip'') (getKeypoint ''right_hip'')
             \<lparr>message = ''Try to level your hips'', severity = info, part = Some ''hips''\<rparr> st)
      else st)"

definition backPostureFeedback_js ::
  "'v Arithmetic \<Rightarrow> (string \<Rightarrow> Keypoint option) \<Rightarrow> bool \<Rightarrow> bool \<Rightarrow> Checks \<Rightarrow> Checks" where
  "backPostureFeedback_js A getKeypoint hasUpperBody hasLowerBody st =
     (if hasUpperBody \<and> hasLowerBody then
        (case (getKeypoint ''left_shoulder'', getKeypoint ''right_shoulder'',
               getKeypoint ''left_hip'', getKeypoint ''right_hip'') of
           (Some leftShoulder, Some rightShoulder, Some leftHip, Some rightHip) \<Rightarrow>
             (let shoulderCenter_x =
                    js_divide A
                      (js_add A (js_num A (kp_x leftShoulder)) (js_num A (kp_x rightShoulder)))
                      (js_num A 2);
                  hipCenter_x =
                    js_divide A (js_add A (js_num A (kp_x leftHip)) (js_num A (kp_x rightHip)))
                      (js_num A 2);
                  verticalAlignment = js_abs A (js_sub A shoulderCenter_x hipCenter_x)
              in if js_gt A verticalAlignment (js_num A (1 / 10)) then
                   push \<lparr>message = ''Try to align your shoulders over your hips'',
                         severity = info, part = Some ''back''\<rparr> st
                 else st)
         | _ \<Rightarrow> st)
      else st)"

definition faceFeedback_js ::
  "'v Arithmetic \<Rightarrow> (string \<Rightarrow> Keypoint option) \<Rightarrow> bool \<Rightarrow> Checks \<Rightarrow> Checks" where
  "faceFeedback_js A getKeypoint hasFace st =
     (if hasFace then
        (let a = levelCheck_js A (getKeypoint ''left_eye'') (getKeypoint ''right_eye'')
                   \<lparr>message = ''Try to level your head for a better pose'', severity = info,
                    part = Some ''head''\<rparr> st
         in case getKeypoint ''nose'' of
              Some nose \<Rightarrow>
                (let centerX = js_num A (1 / 2);
                     distanceFromCenter = js_abs A (js_sub A (js_num A (kp_x nose)) centerX)
                 in if js_gt A distanceFromCenter (js_num A (2 / 10)) then
                      push \<lparr>message = ''Try to center your face in the frame'',
                            severity = info, part = Some ''position''\<rparr> a
                    else a)
            | None \<Rightarrow> a)
      else st)"

definition fitnessChecks_js ::
  "'v Arithmetic \<Rightarrow> (string \<Rightarrow> Keypoint option) \<Rightarrow> bool \<Rightarrow> bool \<Rightarrow> Checks \<Rightarrow> Checks" where
  "fitnessChecks_js A getKeypoint hasUpperBody hasLowerBody st =
     backPostureFeedback_js A getKeypoint hasUpperBody hasLowerBody
       (lowerBodyFeedback_js A getKeypoint hasLowerBody
          (upperBodyFeedback_js A getKeypoint hasUpperBody ''Try to level your shoulders'' st))"

definition photographyChecks_js ::
  "'v Arithmetic \<Rightarrow> (string \<Rightarrow> Keypoint option) \<Rightarrow> bool \<Rightarrow> bool \<Rightarrow> Checks \<Rightarrow> Checks" where
  "photographyChecks_js A getKeypoint hasFace hasUpperBody st =
     upperBodyFeedback_js A getKeypoint hasUpperBody
       ''Level your shoulders for a more balanced pose''
       (faceFeedback_js A getKeypoint hasFace st)"

definition analyzePose_js :: "'v Arithmetic \<Rightarrow> Pose \<Rightarrow> PoseMode \<Rightarrow> PoseFeedback list" where
  "analyzePose_js A pose mode =
     (case pose_keypoints pose of
        None \<Rightarrow> [\<lparr>message = ''No pose detected'', severity = info, part = None\<rparr>]
      | Some all_keypoints \<Rightarrow>
          (let keypoints = filter (\<lambda>kp. score_above_js A (2 / 10) (kp_score kp)) all_keypoints
           in if length keypoints < 3 then
                [\<lparr>message = ''Move closer to the camera or adjust lighting'',
                  severity = info, part = None\<rparr>]
              else
                (let getKeypoint = (\<lambda>n. nameMap keypoints (Some n));
                     hasUpperBody =
                       (getKeypoint ''left_shoulder'' \<noteq> None \<and>
                        getKeypoint ''right_shoulder'' \<noteq> None);
                     hasLowerBody =
                       (getKeypoint ''left_hip'' \<noteq> None \<and> getKeypoint ''right_hip'' \<noteq> None);
                     hasFace =
                       (getKeypoint ''nose'' \<noteq> None \<or>
                        (getKeypoint ''left_eye'' \<noteq> None \<and> getKeypoint ''right_eye'' \<noteq> None));
                     st =
                       (case mode of
                          fitness \<Rightarrow> fitnessChecks_js A getKeypoint hasUpperBody hasLowerBody ([], True)
                        | photography \<Rightarrow>
                            photographyChecks_js A getKeypoint hasFace hasUpperBody ([], True))
                 in if length (fst st) = 0 \<or> snd st then
                      fst st @ [positiveFeedback mode hasUpperBody hasLowerBody hasFace]
                    else fst st)))"

subsection \<open>Exact arithmetic as one such arithmetic\<close>

text \<open>
  The arithmetic of the real-number model: a value is a real number or nothing, a quotient
  by zero is nothing, and nothing is all that is computed from nothing.
\<close>

definition lift2 :: "(real \<Rightarrow> real \<Rightarrow> real) \<Rightarrow> real option \<Rightarrow> real option \<Rightarrow> real option" where
  "lift2 f a b = (case (a, b) of (Some u, Some v) \<Rightarrow> Some (f u v) | _ \<Rightarrow> None)"

definition partial_reals :: "real option Arithmetic" where
  "partial_reals =
     \<lparr>js_num = Some,
      js_add = lift2 (+),
      js_sub = lift2 (-),
      js_mul = lift2 (*),
      js_divide = (\<lambda>a b. case (a, b) of (Some u, Some v) \<Rightarrow> js_div u v | _ \<Rightarrow> None),
      js_square = map_option (\<lambda>v. v ^ 2),
      js_sqrt = map_option sqrt,
      js_abs = map_option abs,
      js_max = lift2 max,
      js_round = map_option Math_round,
      js_gt = (\<lambda>a b. case (a, b) of (Some u, Some v) \<Rightarrow> u > v | _ \<Rightarrow> False),
      js_inherited = (\<lambda>n. None)\<rparr>"

subsection \<open>Double arithmetic as one such arithmetic\<close>

text \<open>
  The arithmetic of the code. A JavaScript number is an IEEE 754 double. The finite doubles
  are real numbers, and an operation returns the exact result rounded to the nearest double,
  a tie going to the even significand. \<open>round_even\<close> rounds a real number to the nearest
  integer in this way.
\<close>

definition round_even :: "real \<Rightarrow> int" where
  "round_even y =
     (let f = \<lfloor>y\<rfloor>; r = y - of_int f
      in if r < 1 / 2 then f else if 1 / 2 < r then f + 1 else if even f then f else f + 1)"

text \<open>
  The spacing of the doubles around \<open>x\<close>: \<open>2^(e - 52)\<close> where \<open>2^e \<le> |x| < 2^(e + 1)\<close>, a
  significand of 53 bits, and the spacing \<open>2^-1074\<close> of the subnormal numbers below
  \<open>2^-1022\<close>. \<open>cell\<close> is the exponent \<open>e\<close>, at least -1022.
\<close>

definition quantum :: "real \<Rightarrow> real" where
  "quantum x = 2 powr (of_int (max \<lfloor>log 2 \<bar>x\<bar>\<rfloor> (- 1022)) - 52)"

definition cell :: "real \<Rightarrow> int" where
  "cell x = max \<lfloor>log 2 \<bar>x\<bar>\<rfloor> (- 1022)"

text \<open>The nearest double, were the exponent unbounded above.\<close>

definition rd :: "real \<Rightarrow> real" where
  "rd x = (if x = 0 then 0 else quantum x * of_int (round_even (x / quantum x)))"

text \<open>
  The largest double. A result whose rounding is beyond it overflows to an infinity.
  \<open>None\<close> is a value that is not a finite double: \<^verbatim>\<open>NaN\<close>, an infinity, or a value that is
  not a number. Nothing is computed from it and every comparison with it is false, as with
  \<^verbatim>\<open>NaN\<close>; the model follows the code as long as every value is a finite double.
\<close>

definition max_double :: real where
  "max_double = (2 ^ 53 - 1) * 2 ^ 971"

definition fin :: "real \<Rightarrow> real option" where
  "fin x = (if \<bar>rd x\<bar> \<le> max_double then Some (rd x) else None)"

text \<open>
  The members of \<^verbatim>\<open>Object.prototype\<close>, which any object literal inherits; they are functions,
  and \<^verbatim>\<open>__proto__\<close> is an object.
\<close>

definition Object_prototype :: "string list" where
  "Object_prototype =
     [''constructor'', ''hasOwnProperty'', ''isPrototypeOf'', ''propertyIsEnumerable'',
      ''toLocaleString'', ''toString'', ''valueOf'', ''__proto__'', ''__defineGetter__'',
      ''__defineSetter__'', ''__lookupGetter__'', ''__lookupSetter__'']"

text \<open>
  A numeric literal or input is read as the nearest double; sum, difference, product and
  quotient are rounded once, a quotient by zero is not finite; \<^verbatim>\<open>Math.pow(v, 2)\<close> is
  \<open>v * v\<close> rounded once, as V8 and fdlibm compute it; \<^verbatim>\<open>Math.sqrt\<close> is rounded once;
  \<^verbatim>\<open>Math.abs\<close>, \<^verbatim>\<open>Math.max\<close> and \<^verbatim>\<open>Math.round\<close> are exact.
\<close>

definition rounded ::
  "(real \<Rightarrow> real \<Rightarrow> real) \<Rightarrow> real option \<Rightarrow> real option \<Rightarrow> real option" where
  "rounded f a b = (case (a, b) of (Some u, Some v) \<Rightarrow> fin (f u v) | _ \<Rightarrow> None)"

definition doubles :: "real option Arithmetic" where
  "doubles =
     \<lparr>js_num = fin,
      js_add = rounded (+),
      js_sub = rounded (-),
      js_mul = rounded (*),
      js_divide =
        (\<lambda>a b. case (a, b) of
                  (Some u, Some v) \<Rightarrow> if v = 0 then None else fin (u / v)
                | _ \<Rightarrow> None),
      js_square = (\<lambda>a. case a of Some u \<Rightarrow> fin (u * u) | None \<Rightarrow> None),
      js_sqrt =
        (\<lambda>a. case a of Some u \<Rightarrow> if u < 0 then None else fin (sqrt u) | None \<Rightarrow> None),
      js_abs = map_option abs,
      js_max = lift2 max,
      js_round = map_option Math_round,
      js_gt = (\<lambda>a b. case (a, b) of (Some u, Some v) \<Rightarrow> u > v | _ \<Rightarrow> False),
      js_inherited = (\<lambda>n. if n \<in> set Object_prototype then Some None else None)\<rparr>"

subsection \<open>The score in the words of the specification\<close>





subsection \<open>Arithmetic with monotone operations\<close>

text \<open>\<open>a\<close> is not above \<open>b\<close> when \<^verbatim>\<open>a > b\<close> is false.\<close>

definition not_above :: "'v Arithmetic \<Rightarrow> 'v \<Rightarrow> 'v \<Rightarrow> bool" where
  "not_above A a b = (\<not> js_gt A a b)"

text \<open>
  The operations that lead from the distance of a part to the score keep this order: the
  multiplications by 5, by 100 and by a weight, the subtraction from 1 (which reverses it),
  the maximum with 0, the addition, the division by a positive number, and \<^verbatim>\<open>Math.round\<close>.
\<close>

definition monotone_arithmetic :: "'v Arithmetic \<Rightarrow> bool" where
  "monotone_arithmetic A \<longleftrightarrow>
     (\<forall>a. not_above A a a) \<and>
     (\<forall>a b. not_above A a b \<longrightarrow>
        not_above A (js_mul A a (js_num A 5)) (js_mul A b (js_num A 5))) \<and>
     (\<forall>a b. not_above A a b \<longrightarrow>
        not_above A (js_sub A (js_num A 1) b) (js_sub A (js_num A 1) a)) \<and>
     (\<forall>a b. not_above A a b \<longrightarrow>
        not_above A (js_max A (js_num A 0) a) (js_max A (js_num A 0) b)) \<and>
     (\<forall>a b n. not_above A a b \<longrightarrow>
        not_above A (js_mul A a (weight_js A n)) (js_mul A b (weight_js A n))) \<and>
     (\<forall>a b c d. not_above A a b \<longrightarrow> not_above A c d \<longrightarrow>
        not_above A (js_add A a c) (js_add A b d)) \<and>
     (\<forall>a b w. not_above A a b \<longrightarrow> js_gt A w (js_num A 0) \<longrightarrow>
        not_above A (js_divide A a w) (js_divide A b w)) \<and>
     (\<forall>a b. not_above A a b \<longrightarrow>
        not_above A (js_mul A a (js_num A 100)) (js_mul A b (js_num A 100))) \<and>
     (\<forall>a b. not_above A a b \<longrightarrow> not_above A (js_round A a) (js_round A b))"


section \<open>Quantities of the proofs\<close>

text \<open>
  The detected keypoint set of a pose: the keypoints that \<^verbatim>\<open>scorePose\<close> can look up by name.
  A pose without keypoints has none.
\<close>

definition detected :: "Pose \<Rightarrow> (string \<rightharpoonup> Keypoint)" where
  "detected pose = (case pose_keypoints pose of None \<Rightarrow> Map.empty | Some ks \<Rightarrow> keypointMap ks)"

text \<open>
  The weight table in the words of the specification: shoulders, elbows and wrists 1.5,
  nose 1.0, eyes 0.8, ears 0.7, hips 0.8, knees 0.6, ankles 0.4, any other part 1.0.
\<close>

definition spec_weight :: "string \<Rightarrow> real" where
  "spec_weight n =
     (if n \<in> {''left_shoulder'', ''right_shoulder'', ''left_elbow'', ''right_elbow'',
               ''left_wrist'', ''right_wrist''} then 3 / 2
      else if n = ''nose'' then 1
      else if n \<in> {''left_eye'', ''right_eye''} then 8 / 10
      else if n \<in> {''left_ear'', ''right_ear''} then 7 / 10
      else if n \<in> {''left_hip'', ''right_hip''} then 8 / 10
      else if n \<in> {''left_knee'', ''right_knee''} then 6 / 10
      else if n \<in> {''left_ankle'', ''right_ankle''} then 4 / 10
      else 1)"

text \<open>
  The Euclidean distance between the template target scaled to pixels and the detected
  position, each axis divided by the frame dimension before squaring; the dimensions are
  nonzero wherever it is used.
\<close>

definition spec_distance :: "Point \<Rightarrow> Keypoint \<Rightarrow> real \<Rightarrow> real \<Rightarrow> real" where
  "spec_distance target k w h =
     sqrt (((pt_x target * w - kp_x k) / w) ^ 2 + ((pt_y target * h - kp_y k) / h) ^ 2)"

text \<open>
  The score of one template part: nothing for a missing part, and for a matched part what
  the loop adds to \<^verbatim>\<open>totalScore\<close>.
\<close>

definition part_score :: "(string \<rightharpoonup> Keypoint) \<Rightarrow> real \<Rightarrow> real \<Rightarrow> string \<times> Point \<Rightarrow> real" where
  "part_score m w h e =
     (case m (fst e) of
        None \<Rightarrow> 0
      | Some k \<Rightarrow> keypointScore (spec_distance (snd e) k w h) * weight_of (fst e))"

section \<open>Concrete inputs\<close>

definition keypoint_at :: "string \<Rightarrow> real \<Rightarrow> real \<Rightarrow> real \<Rightarrow> Keypoint" where
  "keypoint_at n px py s = \<lparr>kp_x = px, kp_y = py, kp_score = Some s, kp_name = Some n\<rparr>"

text \<open>The catalog entry \<^verbatim>\<open>side-chest\<close> of \<^verbatim>\<open>olympiaPoses\<close> (PoseSelector.tsx).\<close>

definition side_chest :: PoseTemplate where
  "side_chest =
     \<lparr>template_id = ''side-chest'',
      template_name = ''Side Chest'',
      description =
        ''Stand sideways, flex the chest, and bring one arm across to emphasize chest development.'',
      image = ''/poses/side-chest.png'',
      template_keypoints =
        [(''left_shoulder'', \<lparr>pt_x = 0.4, pt_y = 0.25\<rparr>),
         (''right_shoulder'', \<lparr>pt_x = 0.55, pt_y = 0.25\<rparr>),
         (''left_elbow'', \<lparr>pt_x = 0.3, pt_y = 0.4\<rparr>),
         (''right_elbow'', \<lparr>pt_x = 0.45, pt_y = 0.4\<rparr>),
         (''left_wrist'', \<lparr>pt_x = 0.45, pt_y = 0.35\<rparr>),
         (''right_wrist'', \<lparr>pt_x = 0.6, pt_y = 0.35\<rparr>),
         (''left_hip'', \<lparr>pt_x = 0.45, pt_y = 0.55\<rparr>),
         (''right_hip'', \<lparr>pt_x = 0.55, pt_y = 0.55\<rparr>),
         (''left_knee'', \<lparr>pt_x = 0.4, pt_y = 0.8\<rparr>),
         (''right_knee'', \<lparr>pt_x = 0.6, pt_y = 0.8\<rparr>)]\<rparr>"


text \<open>
  A 640 x 480 frame with nose and both shoulders, the shoulders on their \<^verbatim>\<open>side-chest\<close>
  targets.
\<close>

definition upper_body_pose :: Pose where
  "upper_body_pose =
     \<lparr>pose_keypoints =
        Some [keypoint_at ''nose'' 300 60 0.9,
              keypoint_at ''left_shoulder'' 256 120 0.9,
              keypoint_at ''right_shoulder'' 352 120 0.9]\<rparr>"

text \<open>Keypoints that are all too faint for \<^verbatim>\<open>scorePose\<close>, or unnamed.\<close>

definition faint_pose :: Pose where
  "faint_pose =
     \<lparr>pose_keypoints =
        Some [keypoint_at ''nose'' 300 60 0.3,
              keypoint_at ''left_shoulder'' 256 120 0.1,
              \<lparr>kp_x = 352, kp_y = 120, kp_score = None, kp_name = Some ''right_shoulder''\<rparr>,
              \<lparr>kp_x = 10, kp_y = 10, kp_score = Some 0.9, kp_name = None\<rparr>]\<rparr>"


definition level_pose :: Pose where
  "level_pose =
     \<lparr>pose_keypoints =
        Some [keypoint_at ''nose'' 150 50 0.9,
              keypoint_at ''left_shoulder'' 100 100 0.9,
              keypoint_at ''right_shoulder'' 200 100 0.9]\<rparr>"

definition stacked_pose :: Pose where
  "stacked_pose =
     \<lparr>pose_keypoints =
        Some [keypoint_at ''nose'' 100 50 0.9,
              keypoint_at ''left_shoulder'' 100 100 0.9,
              keypoint_at ''right_shoulder'' 100 140 0.9]\<rparr>"


text \<open>Two usable keypoints only.\<close>

definition sparse_pose :: Pose where
  "sparse_pose =
     \<lparr>pose_keypoints =
        Some [keypoint_at ''nose'' 150 50 0.9,
              keypoint_at ''left_shoulder'' 100 100 0.9,
              keypoint_at ''right_shoulder'' 200 140 0.2]\<rparr>"

text \<open>The messages of \<^verbatim>\<open>getPoseFeedback\<close> that the properties name.\<close>

definition overallMessages :: "string list" where
  "overallMessages =
     [''Perfect! You've mastered this pose.'',
      ''Great job! Your pose is very close to perfect.'',
      ''Good effort! Keep adjusting to improve your score.'',
      ''You're on the right track. Try to align your body more closely with the template.'',
      ''Keep practicing! Try to match the pose template more closely.'']"

definition lowerBodyHint :: string where
  "lowerBodyHint =
     ''For a complete pose, try to include your lower body in the frame if possible.''"

definition sideChestTip :: string where
  "sideChestTip =
     ''Turn to the side more and bring your arm across your chest to emphasize your pectoral muscles.''"

text \<open>A score result of \<^verbatim>\<open>side-chest\<close> with hips and knees missing.\<close>

definition legs_missing :: "real \<Rightarrow> PoseScoreResult" where
  "legs_missing s =
     \<lparr>score = s, matchedKeypoints = 6, totalKeypoints = 10,
      missingKeypoints = [''left_hip'', ''right_hip'', ''left_knee'', ''right_knee'']\<rparr>"



text \<open>
  Left shoulder, left hip and left knee on the 640 x 480 frame of \<^verbatim>\<open>side-chest\<close>, the
  shoulder at the distance 1/8 from its target, the hip 24 pixels and the knee 72 pixels
  beside theirs; and the same with the shoulder at about (238.439, 178.537), a double
  position whose distance from the target is larger than 1/8 by less than the rounding of
  the code.
\<close>

definition tie_pose :: Pose where
  "tie_pose =
     \<lparr>pose_keypoints =
        Some [keypoint_at ''left_shoulder'' 176 120 0.9,
              keypoint_at ''left_hip'' 264 264 0.9,
              keypoint_at ''left_knee'' 184 384 0.9]\<rparr>"

definition farther_pose :: Pose where
  "farther_pose =
     \<lparr>pose_keypoints =
        Some [keypoint_at ''left_shoulder''
                (8389327354644429 / 35184372088832) (6281697650981713 / 35184372088832) 0.9,
              keypoint_at ''left_hip'' 264 264 0.9,
              keypoint_at ''left_knee'' 184 384 0.9]\<rparr>"

section \<open>Properties of double arithmetic\<close>

subsection \<open>Rounding\<close>

text \<open>
  A number in the binade of spacing \<open>2^-k\<close> rounds to the multiple \<open>m / 2^k\<close> that is less
  than half a spacing away, and at exactly half a spacing to the even one; a square root
  is placed by the squares of the two bounds. Rounding is monotone.
\<close>

lemma round_even_near:
  assumes near: "\<bar>y - of_int m\<bar> < 1 / 2"
  shows "round_even y = m"
proof -
  from near have "of_int m - 1 / 2 < y" "y < of_int m + 1 / 2" by arith+
  show ?thesis
  proof (cases "of_int m \<le> y")
    case True
    then have f: "\<lfloor>y\<rfloor> = m" using \<open>y < of_int m + 1 / 2\<close> by (simp add: floor_unique)
    then show ?thesis using \<open>y < of_int m + 1 / 2\<close> by (simp add: round_even_def Let_def)
  next
    case False
    then have f: "\<lfloor>y\<rfloor> = m - 1" using \<open>of_int m - 1 / 2 < y\<close> by (intro floor_unique) simp_all
    then show ?thesis using \<open>of_int m - 1 / 2 < y\<close> by (simp add: round_even_def Let_def)
  qed
qed

lemma quantum_eq:
  fixes k :: nat
  assumes "k \<le> 1074" "2 ^ 52 / 2 ^ k \<le> \<bar>x\<bar>" "\<bar>x\<bar> < 2 ^ 53 / 2 ^ k"
  shows "quantum x = 1 / 2 ^ k"
proof -
  have pos: "0 < \<bar>x\<bar>" using assms(2) by (smt (verit) divide_pos_pos zero_less_power)
  have k: "2 powr real k = (2::real) ^ k" by (simp add: powr_realpow)
  have p: "2 powr (52 - real k) = (2::real) ^ 52 / 2 ^ k"
    by (simp only: powr_diff k) simp
  have p': "2 powr (53 - real k) = (2::real) ^ 53 / 2 ^ k"
    by (simp only: powr_diff k) simp
  have "2 powr (52 - real k) \<le> \<bar>x\<bar> \<and> \<bar>x\<bar> < 2 powr (53 - real k)"
    unfolding p p' using assms(2,3) by simp
  with pos have "\<lfloor>log 2 \<bar>x\<bar>\<rfloor> = 52 - int k"
    using floor_log_eq_powr_iff [of "\<bar>x\<bar>" 2 "52 - int k"] by simp
  moreover have "- 1022 \<le> 52 - int k" using assms(1) by simp
  ultimately have "quantum x = 2 powr (of_int (52 - int k) - 52)"
    by (simp add: quantum_def max_def)
  also have "\<dots> = 2 powr (- real k)" by simp
  also have "\<dots> = 1 / 2 ^ k" by (simp add: powr_minus powr_realpow divide_inverse)
  finally show ?thesis .
qed

lemma rd_near:
  fixes k :: nat
  assumes "k \<le> 1074" "2 ^ 52 / 2 ^ k \<le> \<bar>x\<bar>" "\<bar>x\<bar> < 2 ^ 53 / 2 ^ k"
    and "\<bar>x * 2 ^ k - of_int m\<bar> < 1 / 2"
  shows "rd x = of_int m / 2 ^ k"
proof -
  have q: "quantum x = 1 / 2 ^ k" by (rule quantum_eq) fact+
  have "x \<noteq> 0" using assms(2) by (smt (verit) divide_pos_pos zero_less_power abs_zero)
  moreover have "round_even (x / quantum x) = m" using assms(4) by (simp add: q round_even_near)
  ultimately show ?thesis by (simp add: rd_def q)
qed

lemma rd_sqrt_near:
  fixes k :: nat
  assumes "k \<le> 1074" "(2 ^ 52 / 2 ^ k)\<^sup>2 \<le> a" "a < (2 ^ 53 / 2 ^ k)\<^sup>2"
    and "1 \<le> m" "((of_int m - 1 / 2) / 2 ^ k)\<^sup>2 < a" "a < ((of_int m + 1 / 2) / 2 ^ k)\<^sup>2"
  shows "rd (sqrt a) = of_int m / 2 ^ k"
proof (rule rd_near)
  have a: "0 \<le> a" using assms(2) by (smt (verit) zero_le_power2)
  have s: "0 \<le> sqrt a" using a by simp
  show "k \<le> 1074" by fact
  show "2 ^ 52 / 2 ^ k \<le> \<bar>sqrt a\<bar>" using assms(2) a by (simp add: real_le_rsqrt)
  show "\<bar>sqrt a\<bar> < 2 ^ 53 / 2 ^ k" using assms(3) a by (simp add: real_less_lsqrt)
  have lo: "(of_int m - 1 / 2) / 2 ^ k < sqrt a"
    using assms(5) by (intro real_less_rsqrt)
  have hi: "sqrt a < (of_int m + 1 / 2) / 2 ^ k"
    using assms(4,6) a by (intro real_less_lsqrt) simp_all
  from lo have "- (1 / 2) < sqrt a * 2 ^ k - of_int m" by (simp add: field_simps)
  moreover from hi have "sqrt a * 2 ^ k - of_int m < 1 / 2" by (simp add: field_simps)
  ultimately show "\<bar>sqrt a * 2 ^ k - of_int m\<bar> < 1 / 2" by (simp only: abs_less_iff) simp
qed

lemma round_even_bounds: "\<lfloor>y\<rfloor> \<le> round_even y \<and> round_even y \<le> \<lfloor>y\<rfloor> + 1"
  by (simp add: round_even_def Let_def)

lemma round_even_of_int: "round_even (of_int n) = n"
  by (simp add: round_even_def Let_def)

lemma round_even_mono:
  assumes "x \<le> y"
  shows "round_even x \<le> round_even y"
proof (cases "\<lfloor>x\<rfloor> = \<lfloor>y\<rfloor>")
  case True
  with assms have "x - of_int \<lfloor>x\<rfloor> \<le> y - of_int \<lfloor>y\<rfloor>" by simp
  with True show ?thesis by (auto simp add: round_even_def Let_def)
next
  case False
  with assms have "\<lfloor>x\<rfloor> < \<lfloor>y\<rfloor>" using floor_mono [of x y] by simp
  then have "\<lfloor>x\<rfloor> + 1 \<le> \<lfloor>y\<rfloor>" by simp
  with round_even_bounds [of x] round_even_bounds [of y] show ?thesis by linarith
qed

lemma round_even_minus: "round_even (- y) = - round_even y"
proof (cases "y \<in> \<int>")
  case True
  then obtain n where "y = of_int n" by (auto elim: Ints_cases)
  then have "- y = of_int (- n)" by simp
  then show ?thesis unfolding \<open>y = of_int n\<close> by (simp only: round_even_of_int)
next
  case False
  then have ne: "y \<noteq> of_int \<lfloor>y\<rfloor>" by (metis Ints_of_int)
  then have f: "\<lfloor>- y\<rfloor> = - \<lfloor>y\<rfloor> - 1"
    by (simp add: floor_minus ceiling_altdef)
  have "of_int \<lfloor>y\<rfloor> < y" using ne of_int_floor_le [of y] by linarith
  then have r: "0 < y - of_int \<lfloor>y\<rfloor>" "y - of_int \<lfloor>y\<rfloor> < 1" by linarith+
  have e: "even (- \<lfloor>y\<rfloor> - 1) \<longleftrightarrow> odd \<lfloor>y\<rfloor>" by simp
  show ?thesis
    using r by (auto simp add: round_even_def Let_def f e)
qed

lemma round_even_tie:
  assumes tie: "\<bar>y - of_int m\<bar> = 1 / 2" and even: "even m"
  shows "round_even y = m"
proof -
  from tie consider "y = of_int m + 1 / 2" | "y = of_int m - 1 / 2" by arith
  then show ?thesis
  proof cases
    case 1
    then have "\<lfloor>y\<rfloor> = m" by (intro floor_unique) simp_all
    with 1 even show ?thesis by (simp add: round_even_def Let_def)
  next
    case 2
    then have "\<lfloor>y\<rfloor> = m - 1" by (intro floor_unique) simp_all
    with 2 even show ?thesis by (simp add: round_even_def Let_def)
  qed
qed

lemma rd_tie:
  fixes k :: nat
  assumes "k \<le> 1074" "2 ^ 52 / 2 ^ k \<le> \<bar>x\<bar>" "\<bar>x\<bar> < 2 ^ 53 / 2 ^ k"
    and "\<bar>x * 2 ^ k - of_int m\<bar> = 1 / 2" "even m"
  shows "rd x = of_int m / 2 ^ k"
proof -
  have q: "quantum x = 1 / 2 ^ k" by (rule quantum_eq) fact+
  have "x \<noteq> 0" using assms(2) by (smt (verit) divide_pos_pos zero_less_power abs_zero)
  moreover have "round_even (x / quantum x) = m" using assms(4,5) by (simp add: q round_even_tie)
  ultimately show ?thesis by (simp add: rd_def q)
qed

lemma quantum_cell: "quantum x = 2 powr (of_int (cell x) - 52)"
  by (simp add: quantum_def cell_def)

lemma quantum_pos: "0 < quantum x"
  by (simp add: quantum_def)

lemma rd_minus: "rd (- x) = - rd x"
  by (simp add: rd_def quantum_def round_even_minus)

lemma rd_pos_bounds:
  assumes "0 < x"
  shows "0 \<le> rd x" and "rd x \<le> 2 powr (of_int (cell x) + 1)"
    and "- 1022 \<le> \<lfloor>log 2 x\<rfloor> \<Longrightarrow> 2 powr (of_int (cell x)) \<le> rd x"
proof -
  let ?q = "quantum x"
  have q: "0 < ?q" by (rule quantum_pos)
  have rd: "rd x = ?q * of_int (round_even (x / ?q))" using assms by (simp add: rd_def)
  have "round_even 0 \<le> round_even (x / ?q)" using assms q by (intro round_even_mono) simp
  then have "0 \<le> round_even (x / ?q)" using round_even_of_int [of 0] by simp
  then show "0 \<le> rd x" using q by (simp add: rd)
  have cellx: "2 powr (of_int \<lfloor>log 2 x\<rfloor>) \<le> x \<and> x < 2 powr (of_int \<lfloor>log 2 x\<rfloor> + 1)"
    using assms floor_log_eq_powr_iff [of x 2 "\<lfloor>log 2 x\<rfloor>"] by simp
  then have "x < 2 powr (of_int \<lfloor>log 2 x\<rfloor> + 1)" by simp
  also have "\<dots> \<le> 2 powr (of_int (cell x) + 1)" using assms by (simp add: cell_def)
  finally have "x < 2 powr (of_int (cell x) + 1)" .
  moreover have "2 powr (of_int (cell x) + 1) = ?q * 2 ^ 53"
  proof -
    have e: "real_of_int (cell x) + 1 = (of_int (cell x) - 52) + 53" by simp
    have "(2::real) powr (of_int (cell x) + 1) = 2 powr ((of_int (cell x) - 52) + 53)"
      by (simp only: e)
    also have "\<dots> = 2 powr (of_int (cell x) - 52) * 2 powr 53" by (rule powr_add)
    also have "(2::real) powr 53 = 2 ^ 53" by simp
    finally show ?thesis by (simp only: quantum_cell)
  qed
  ultimately have "x / ?q \<le> 2 ^ 53" using q by (simp add: field_simps)
  then have "round_even (x / ?q) \<le> round_even (of_int (2 ^ 53))"
    by (intro round_even_mono) simp
  then have "round_even (x / ?q) \<le> 2 ^ 53" by (simp only: round_even_of_int)
  then have "(of_int (round_even (x / ?q)) :: real) \<le> 2 ^ 53"
    by (metis of_int_le_iff of_int_numeral of_int_power)
  then show "rd x \<le> 2 powr (of_int (cell x) + 1)"
    using q unfolding rd \<open>2 powr (of_int (cell x) + 1) = ?q * 2 ^ 53\<close> by simp
  assume normal: "- 1022 \<le> \<lfloor>log 2 x\<rfloor>"
  then have c: "cell x = \<lfloor>log 2 x\<rfloor>" using assms by (simp add: cell_def)
  have "2 powr (of_int \<lfloor>log 2 x\<rfloor>) \<le> x" using cellx by simp
  then have "2 powr (of_int (cell x)) \<le> x" by (simp add: c)
  moreover have p: "2 powr (of_int (cell x)) = ?q * 2 ^ 52"
  proof -
    have e: "real_of_int (cell x) = (of_int (cell x) - 52) + 52" by simp
    have "(2::real) powr (of_int (cell x)) = 2 powr ((of_int (cell x) - 52) + 52)"
      by (rule arg_cong [OF e])
    also have "\<dots> = 2 powr (of_int (cell x) - 52) * 2 powr 52" by (rule powr_add)
    also have "(2::real) powr 52 = 2 ^ 52" by simp
    finally show ?thesis by (simp only: quantum_cell)
  qed
  ultimately have "2 ^ 52 \<le> x / ?q" using q by (simp add: field_simps)
  then have "round_even (of_int (2 ^ 52)) \<le> round_even (x / ?q)"
    by (intro round_even_mono) simp
  then have "2 ^ 52 \<le> round_even (x / ?q)" by (simp only: round_even_of_int)
  then have "(2 ^ 52 :: real) \<le> of_int (round_even (x / ?q))"
    by (metis of_int_le_iff of_int_numeral of_int_power)
  then show "2 powr (of_int (cell x)) \<le> rd x"
    using q unfolding rd p by simp
qed

lemma cell_mono:
  assumes "0 < x" "x \<le> y"
  shows "cell x \<le> cell y"
proof -
  have "log 2 x \<le> log 2 y" using assms by simp
  then have "\<lfloor>log 2 x\<rfloor> \<le> \<lfloor>log 2 y\<rfloor>" by (rule floor_mono)
  then show ?thesis using assms by (simp add: cell_def)
qed

lemma rd_mono_pos:
  assumes "0 < x" "x \<le> y"
  shows "rd x \<le> rd y"
proof (cases "cell x = cell y")
  case True
  then have q: "quantum x = quantum y" by (simp add: quantum_cell)
  have "x / quantum y \<le> y / quantum y" using assms quantum_pos [of y] by (simp add: divide_right_mono)
  then have "round_even (x / quantum y) \<le> round_even (y / quantum y)" by (rule round_even_mono)
  then show ?thesis using assms quantum_pos [of y] by (simp add: rd_def q)
next
  case False
  with cell_mono [OF assms] have less: "cell x + 1 \<le> cell y" by simp
  have y: "0 < y" using assms by simp
  have "- 1022 \<le> cell x" by (simp add: cell_def)
  with less have "- 1022 < cell y" by simp
  then have "- 1022 \<le> \<lfloor>log 2 y\<rfloor>" using y by (simp add: cell_def max_def split: if_splits)
  then have "2 powr (of_int (cell y)) \<le> rd y" by (rule rd_pos_bounds(3) [OF y])
  moreover have "rd x \<le> 2 powr (of_int (cell x) + 1)" by (rule rd_pos_bounds(2) [OF assms(1)])
  moreover have "(2::real) powr (of_int (cell x) + 1) \<le> 2 powr (of_int (cell y))"
    using less by (simp add: powr_mono flip: of_int_add)
  ultimately show ?thesis by linarith
qed

lemma rd_zero: "rd 0 = 0"
  by (simp add: rd_def)

lemma rd_mono:
  assumes "x \<le> y"
  shows "rd x \<le> rd y"
proof -
  consider "0 < x" | "x = 0" "0 < y" | "x = 0" "y = 0" | "x < 0" "0 < y" | "x < 0" "y = 0" | "y < 0"
    using assms by linarith
  then show ?thesis
  proof cases
    case 1
    then show ?thesis using assms by (rule rd_mono_pos)
  next
    case 2
    then show ?thesis using rd_pos_bounds(1) [of y] by (simp add: rd_zero)
  next
    case 3
    then show ?thesis by simp
  next
    case 4
    then have "0 \<le> rd (- x)" "0 \<le> rd y" using rd_pos_bounds(1) by simp_all
    then show ?thesis by (simp add: rd_minus)
  next
    case 5
    then have "0 \<le> rd (- x)" using rd_pos_bounds(1) by simp
    then show ?thesis using 5 by (simp add: rd_minus rd_zero)
  next
    case 6
    then have "0 < - y" "- y \<le> - x" using assms by simp_all
    then have "rd (- y) \<le> rd (- x)" by (rule rd_mono_pos)
    then show ?thesis by (simp add: rd_minus)
  qed
qed
subsection \<open>The operations\<close>

lemma doubles_fields:
  "js_num doubles = fin"
  "js_add doubles = rounded (+)"
  "js_sub doubles = rounded (-)"
  "js_mul doubles = rounded (*)"
  "js_divide doubles =
     (\<lambda>a b. case (a, b) of (Some u, Some v) \<Rightarrow> if v = 0 then None else fin (u / v) | _ \<Rightarrow> None)"
  "js_square doubles = (\<lambda>a. case a of Some u \<Rightarrow> fin (u * u) | None \<Rightarrow> None)"
  "js_sqrt doubles = (\<lambda>a. case a of Some u \<Rightarrow> if u < 0 then None else fin (sqrt u) | None \<Rightarrow> None)"
  "js_abs doubles = map_option abs"
  "js_max doubles = lift2 max"
  "js_round doubles = map_option Math_round"
  "js_gt doubles = (\<lambda>a b. case (a, b) of (Some u, Some v) \<Rightarrow> u > v | _ \<Rightarrow> False)"
  "js_inherited doubles = (\<lambda>n. if n \<in> set Object_prototype then Some None else None)"
  by (simp_all add: doubles_def)

lemma rounded_simps:
  "rounded f (Some u) (Some v) = fin (f u v)"
  "rounded f None b = None"
  "rounded f a None = None"
  by (simp_all add: rounded_def split: option.splits)

text \<open>The roundings that occur on the example frames.\<close>

lemma fin_0: "fin (9 / 10) = Some (8106479329266893 / 9007199254740992)"
  using rd_near [where k = 53 and m = "8106479329266893" and x = "9 / 10"]
  by (simp add: fin_def max_double_def)

lemma fin_1: "fin (3 / 10) = Some (5404319552844595 / 18014398509481984)"
  using rd_near [where k = 54 and m = "5404319552844595" and x = "3 / 10"]
  by (simp add: fin_def max_double_def)

lemma fin_2: "fin 0 = Some 0"
  by (simp add: fin_def rd_def max_double_def)

lemma fin_3: "fin (3 / 2) = Some (3 / 2)"
  using rd_near [where k = 52 and m = "6755399441055744" and x = "3 / 2"]
  by (simp add: fin_def max_double_def)

lemma fin_4: "fin (2 / 5) = Some (3602879701896397 / 9007199254740992)"
  using rd_near [where k = 54 and m = "7205759403792794" and x = "2 / 5"]
  by (simp add: fin_def max_double_def)

lemma fin_5: "fin 640 = Some 640"
  using rd_near [where k = 43 and m = "5629499534213120" and x = "640"]
  by (simp add: fin_def max_double_def)

lemma fin_6: "fin (18014398509481985 / 70368744177664) = Some 256"
  using rd_near [where k = 44 and m = "4503599627370496" and x = "18014398509481985 / 70368744177664"]
  by (simp add: fin_def max_double_def)

lemma fin_7: "fin (1 / 4) = Some (1 / 4)"
  using rd_near [where k = 54 and m = "4503599627370496" and x = "1 / 4"]
  by (simp add: fin_def max_double_def)

lemma fin_8: "fin 480 = Some 480"
  using rd_near [where k = 44 and m = "8444249301319680" and x = "480"]
  by (simp add: fin_def max_double_def)

lemma fin_9: "fin 120 = Some 120"
  using rd_near [where k = 46 and m = "8444249301319680" and x = "120"]
  by (simp add: fin_def max_double_def)

lemma fin_10: "fin 176 = Some 176"
  using rd_near [where k = 45 and m = "6192449487634432" and x = "176"]
  by (simp add: fin_def max_double_def)

lemma fin_11: "fin 80 = Some 80"
  using rd_near [where k = 46 and m = "5629499534213120" and x = "80"]
  by (simp add: fin_def max_double_def)

lemma fin_12: "fin (1 / 8) = Some (1 / 8)"
  using rd_near [where k = 55 and m = "4503599627370496" and x = "1 / 8"]
  by (simp add: fin_def max_double_def)

lemma fin_13: "fin (1 / 64) = Some (1 / 64)"
  using rd_near [where k = 58 and m = "4503599627370496" and x = "1 / 64"]
  by (simp add: fin_def max_double_def)

lemma fin_14: "fin (sqrt (1 / 64)) = Some (1 / 8)"
  using rd_sqrt_near [where k = 55 and m = "4503599627370496" and a = "1 / 64"]
  by (simp add: fin_def max_double_def power2_eq_square)

lemma fin_15: "fin 1 = Some 1"
  using rd_near [where k = 52 and m = "4503599627370496" and x = "1"]
  by (simp add: fin_def max_double_def)

lemma fin_16: "fin 5 = Some 5"
  using rd_near [where k = 50 and m = "5629499534213120" and x = "5"]
  by (simp add: fin_def max_double_def)

lemma fin_17: "fin (5 / 8) = Some (5 / 8)"
  using rd_near [where k = 53 and m = "5629499534213120" and x = "5 / 8"]
  by (simp add: fin_def max_double_def)

lemma fin_18: "fin (3 / 8) = Some (3 / 8)"
  using rd_near [where k = 54 and m = "6755399441055744" and x = "3 / 8"]
  by (simp add: fin_def max_double_def)

lemma fin_19: "fin (9 / 16) = Some (9 / 16)"
  using rd_near [where k = 53 and m = "5066549580791808" and x = "9 / 16"]
  by (simp add: fin_def max_double_def)

lemma fin_20: "fin 3 = Some 3"
  using rd_near [where k = 51 and m = "6755399441055744" and x = "3"]
  by (simp add: fin_def max_double_def)

lemma fin_21: "fin (9 / 2) = Some (9 / 2)"
  using rd_near [where k = 50 and m = "5066549580791808" and x = "9 / 2"]
  by (simp add: fin_def max_double_def)

lemma fin_22: "fin 6 = Some 6"
  using rd_near [where k = 50 and m = "6755399441055744" and x = "6"]
  by (simp add: fin_def max_double_def)

lemma fin_23: "fin (15 / 2) = Some (15 / 2)"
  using rd_near [where k = 50 and m = "8444249301319680" and x = "15 / 2"]
  by (simp add: fin_def max_double_def)

lemma fin_24: "fin 9 = Some 9"
  using rd_near [where k = 49 and m = "5066549580791808" and x = "9"]
  by (simp add: fin_def max_double_def)

lemma fin_25: "fin (4 / 5) = Some (3602879701896397 / 4503599627370496)"
  using rd_near [where k = 53 and m = "7205759403792794" and x = "4 / 5"]
  by (simp add: fin_def max_double_def)

lemma fin_26: "fin (44135276348230861 / 4503599627370496) = Some (2758454771764429 / 281474976710656)"
  using rd_near [where k = 49 and m = "5516909543528858" and x = "44135276348230861 / 4503599627370496"]
  by (simp add: fin_def max_double_def)

lemma fin_27: "fin (9 / 20) = Some (8106479329266893 / 18014398509481984)"
  using rd_near [where k = 54 and m = "8106479329266893" and x = "9 / 20"]
  by (simp add: fin_def max_double_def)

lemma fin_28: "fin (40532396646334465 / 140737488355328) = Some 288"
  using rd_near [where k = 44 and m = "5066549580791808" and x = "40532396646334465 / 140737488355328"]
  by (simp add: fin_def max_double_def)

lemma fin_29: "fin (11 / 20) = Some (2476979795053773 / 4503599627370496)"
  using rd_near [where k = 53 and m = "4953959590107546" and x = "11 / 20"]
  by (simp add: fin_def max_double_def)

lemma fin_30: "fin (37154696925806595 / 140737488355328) = Some 264"
  using rd_near [where k = 44 and m = "4644337115725824" and x = "37154696925806595 / 140737488355328"]
  by (simp add: fin_def max_double_def)

lemma fin_31: "fin 264 = Some 264"
  using rd_near [where k = 44 and m = "4644337115725824" and x = "264"]
  by (simp add: fin_def max_double_def)

lemma fin_32: "fin 24 = Some 24"
  using rd_near [where k = 48 and m = "6755399441055744" and x = "24"]
  by (simp add: fin_def max_double_def)

lemma fin_33: "fin (3 / 80) = Some (5404319552844595 / 144115188075855872)"
  using rd_near [where k = 57 and m = "5404319552844595" and x = "3 / 80"]
  by (simp add: fin_def max_double_def)

lemma fin_34: "fin (29206669829258403248756220714025 / 20769187434139310514121985316880384) = Some (3242591731706757 / 2305843009213693952)"
  using rd_near [where k = 62 and m = "6485183463413514" and x = "29206669829258403248756220714025 / 20769187434139310514121985316880384"]
  by (simp add: fin_def max_double_def)

lemma fin_35: "fin (3242591731706757 / 2305843009213693952) = Some (3242591731706757 / 2305843009213693952)"
  using rd_near [where k = 62 and m = "6485183463413514" and x = "3242591731706757 / 2305843009213693952"]
  by (simp add: fin_def max_double_def)

lemma fin_36: "fin (sqrt (3242591731706757 / 2305843009213693952)) = Some (5404319552844595 / 144115188075855872)"
  using rd_sqrt_near [where k = 57 and m = "5404319552844595" and a = "3242591731706757 / 2305843009213693952"]
  by (simp add: fin_def max_double_def power2_eq_square)

lemma fin_37: "fin (27021597764222975 / 144115188075855872) = Some (3 / 16)"
  using rd_near [where k = 55 and m = "6755399441055744" and x = "27021597764222975 / 144115188075855872"]
  by (simp add: fin_def max_double_def)

lemma fin_38: "fin (13 / 16) = Some (13 / 16)"
  using rd_near [where k = 53 and m = "7318349394477056" and x = "13 / 16"]
  by (simp add: fin_def max_double_def)

lemma fin_39: "fin (46837436124653161 / 72057594037927936) = Some (5854679515581645 / 9007199254740992)"
  using rd_near [where k = 53 and m = "5854679515581645" and x = "46837436124653161 / 72057594037927936"]
  by (simp add: fin_def max_double_def)

lemma fin_40: "fin (10921229096373453 / 9007199254740992) = Some (2730307274093363 / 2251799813685248)"
  using rd_tie [where k = 52 and m = "5460614548186726" and x = "10921229096373453 / 9007199254740992"]
  by (simp add: fin_def max_double_def)

lemma fin_41: "fin (47738156050127261 / 4503599627370496) = Some (1491817376566477 / 140737488355328)"
  using rd_near [where k = 49 and m = "5967269506265908" and x = "47738156050127261 / 4503599627370496"]
  by (simp add: fin_def max_double_def)

lemma fin_42: "fin (3 / 5) = Some (5404319552844595 / 9007199254740992)"
  using rd_near [where k = 53 and m = "5404319552844595" and x = "3 / 5"]
  by (simp add: fin_def max_double_def)

lemma fin_43: "fin (100880631653099123 / 9007199254740992) = Some (6305039478318695 / 562949953421312)"
  using rd_near [where k = 49 and m = "6305039478318695" and x = "100880631653099123 / 9007199254740992"]
  by (simp add: fin_def max_double_def)

lemma fin_44: "fin (54043195528445955 / 140737488355328) = Some 384"
  using rd_near [where k = 44 and m = "6755399441055744" and x = "54043195528445955 / 140737488355328"]
  by (simp add: fin_def max_double_def)

lemma fin_45: "fin 184 = Some 184"
  using rd_near [where k = 45 and m = "6473924464345088" and x = "184"]
  by (simp add: fin_def max_double_def)

lemma fin_46: "fin 384 = Some 384"
  using rd_near [where k = 44 and m = "6755399441055744" and x = "384"]
  by (simp add: fin_def max_double_def)

lemma fin_47: "fin 72 = Some 72"
  using rd_near [where k = 46 and m = "5066549580791808" and x = "72"]
  by (simp add: fin_def max_double_def)

lemma fin_48: "fin (9 / 80) = Some (8106479329266893 / 72057594037927936)"
  using rd_near [where k = 56 and m = "8106479329266893" and x = "9 / 80"]
  by (simp add: fin_def max_double_def)

lemma fin_49: "fin (65715007115831415416180825873449 / 5192296858534827628530496329220096) = Some (1823957849085051 / 144115188075855872)"
  using rd_near [where k = 59 and m = "7295831396340204" and x = "65715007115831415416180825873449 / 5192296858534827628530496329220096"]
  by (simp add: fin_def max_double_def)

lemma fin_50: "fin (1823957849085051 / 144115188075855872) = Some (1823957849085051 / 144115188075855872)"
  using rd_near [where k = 59 and m = "7295831396340204" and x = "1823957849085051 / 144115188075855872"]
  by (simp add: fin_def max_double_def)

lemma fin_51: "fin (sqrt (1823957849085051 / 144115188075855872)) = Some (8106479329266893 / 72057594037927936)"
  using rd_sqrt_near [where k = 56 and m = "8106479329266893" and a = "1823957849085051 / 144115188075855872"]
  by (simp add: fin_def max_double_def power2_eq_square)

lemma fin_52: "fin (40532396646334465 / 72057594037927936) = Some (9 / 16)"
  using rd_near [where k = 53 and m = "5066549580791808" and x = "40532396646334465 / 72057594037927936"]
  by (simp add: fin_def max_double_def)

lemma fin_53: "fin (7 / 16) = Some (7 / 16)"
  using rd_near [where k = 54 and m = "7881299347898368" and x = "7 / 16"]
  by (simp add: fin_def max_double_def)

lemma fin_54: "fin (37830236869912165 / 144115188075855872) = Some (4728779608739021 / 18014398509481984)"
  using rd_near [where k = 54 and m = "4728779608739021" and x = "37830236869912165 / 144115188075855872"]
  by (simp add: fin_def max_double_def)

lemma fin_55: "fin (26571237801485925 / 18014398509481984) = Some (6642809450371481 / 4503599627370496)"
  using rd_near [where k = 52 and m = "6642809450371481" and x = "26571237801485925 / 18014398509481984"]
  by (simp add: fin_def max_double_def)

lemma fin_56: "fin (106284951205943715 / 9007199254740992) = Some (3321404725185741 / 281474976710656)"
  using rd_near [where k = 49 and m = "6642809450371482" and x = "106284951205943715 / 9007199254740992"]
  by (simp add: fin_def max_double_def)

lemma fin_57: "fin (6642809450371481 / 53142475602971856) = Some (9007199254740991 / 72057594037927936)"
  using rd_near [where k = 56 and m = "9007199254740991" and x = "6642809450371481 / 53142475602971856"]
  by (simp add: fin_def max_double_def)

lemma fin_58: "fin 100 = Some 100"
  using rd_near [where k = 46 and m = "7036874417766400" and x = "100"]
  by (simp add: fin_def max_double_def)

lemma fin_59: "fin (225179981368524775 / 18014398509481984) = Some (7036874417766399 / 562949953421312)"
  using rd_near [where k = 49 and m = "7036874417766399" and x = "225179981368524775 / 18014398509481984"]
  by (simp add: fin_def max_double_def)

lemma fin_60: "fin (8389327354644429 / 35184372088832) = Some (8389327354644429 / 35184372088832)"
  using rd_near [where k = 45 and m = "8389327354644429" and x = "8389327354644429 / 35184372088832"]
  by (simp add: fin_def max_double_def)

lemma fin_61: "fin (6281697650981713 / 35184372088832) = Some (6281697650981713 / 35184372088832)"
  using rd_near [where k = 45 and m = "6281697650981713" and x = "6281697650981713 / 35184372088832"]
  by (simp add: fin_def max_double_def)

lemma fin_62: "fin (617871900096563 / 35184372088832) = Some (617871900096563 / 35184372088832)"
  using rd_near [where k = 48 and m = "4942975200772504" and x = "617871900096563 / 35184372088832"]
  by (simp add: fin_def max_double_def)

lemma fin_63: "fin (617871900096563 / 22517998136852480) = Some (3954380160618003 / 144115188075855872)"
  using rd_near [where k = 58 and m = "7908760321236006" and x = "617871900096563 / 22517998136852480"]
  by (simp add: fin_def max_double_def)

lemma fin_64: "fin (15637122454689263204422887708009 / 20769187434139310514121985316880384) = Some (3472138677615813 / 4611686018427387904)"
  using rd_near [where k = 63 and m = "6944277355231626" and x = "15637122454689263204422887708009 / 20769187434139310514121985316880384"]
  by (simp add: fin_def max_double_def)

lemma fin_65: "fin (- (2059573000321873 / 35184372088832)) = Some (- (2059573000321873 / 35184372088832))"
  using rd_near [where k = 47 and m = "- 8238292001287492" and x = "- (2059573000321873 / 35184372088832)"]
  by (simp add: fin_def max_double_def)

lemma fin_66: "fin (- (2059573000321873 / 16888498602639360)) = Some (- (8787511468039991 / 72057594037927936))"
  using rd_near [where k = 56 and m = "- 8787511468039991" and x = "- (2059573000321873 / 16888498602639360)"]
  by (simp add: fin_def max_double_def)

lemma fin_67: "fin (77220357800934357766235175280081 / 5192296858534827628530496329220096) = Some (4286590960019507 / 288230376151711744)"
  using rd_near [where k = 59 and m = "8573181920039014" and x = "77220357800934357766235175280081 / 5192296858534827628530496329220096"]
  by (simp add: fin_def max_double_def)

lemma fin_68: "fin (72057594037927925 / 4611686018427387904) = Some (9007199254740991 / 576460752303423488)"
  using rd_near [where k = 59 and m = "9007199254740991" and x = "72057594037927925 / 4611686018427387904"]
  by (simp add: fin_def max_double_def)

lemma fin_69: "fin (sqrt (9007199254740991 / 576460752303423488)) = Some (9007199254740991 / 72057594037927936)"
  using rd_sqrt_near [where k = 56 and m = "9007199254740991" and a = "9007199254740991 / 576460752303423488"]
  by (simp add: fin_def max_double_def power2_eq_square)

lemma fin_70: "fin (45035996273704955 / 72057594037927936) = Some (5629499534213119 / 9007199254740992)"
  using rd_near [where k = 53 and m = "5629499534213119" and x = "45035996273704955 / 72057594037927936"]
  by (simp add: fin_def max_double_def)

lemma fin_71: "fin (3377699720527873 / 9007199254740992) = Some (3377699720527873 / 9007199254740992)"
  using rd_near [where k = 54 and m = "6755399441055746" and x = "3377699720527873 / 9007199254740992"]
  by (simp add: fin_def max_double_def)

lemma fin_72: "fin (10133099161583619 / 18014398509481984) = Some (2533274790395905 / 4503599627370496)"
  using rd_tie [where k = 53 and m = "5066549580791810" and x = "10133099161583619 / 18014398509481984"]
  by (simp add: fin_def max_double_def)

lemma fin_73: "fin (2533274790395905 / 4503599627370496) = Some (2533274790395905 / 4503599627370496)"
  using rd_near [where k = 53 and m = "5066549580791810" and x = "2533274790395905 / 4503599627370496"]
  by (simp add: fin_def max_double_def)

lemma fin_74: "fin (10921229096373455 / 9007199254740992) = Some (682576818523341 / 562949953421312)"
  using rd_tie [where k = 52 and m = "5460614548186728" and x = "10921229096373455 / 9007199254740992"]
  by (simp add: fin_def max_double_def)

lemma fin_75: "fin (26571237801485933 / 18014398509481984) = Some (6642809450371483 / 4503599627370496)"
  using rd_near [where k = 52 and m = "6642809450371483" and x = "26571237801485933 / 18014398509481984"]
  by (simp add: fin_def max_double_def)

lemma fin_76: "fin (6642809450371483 / 53142475602971856) = Some (4503599627370497 / 36028797018963968)"
  using rd_near [where k = 55 and m = "4503599627370497" and x = "6642809450371483 / 53142475602971856"]
  by (simp add: fin_def max_double_def)

lemma fin_77: "fin (112589990684262425 / 9007199254740992) = Some (3518437208883201 / 281474976710656)"
  using rd_near [where k = 49 and m = "7036874417766402" and x = "112589990684262425 / 9007199254740992"]
  by (simp add: fin_def max_double_def)

lemma fin_78: "fin 140 = Some 140"
  using rd_near [where k = 45 and m = "4925812092436480" and x = "140"]
  by (simp add: fin_def max_double_def)

lemma fin_79: "fin 40 = Some 40"
  using rd_near [where k = 47 and m = "5629499534213120" and x = "40"]
  by (simp add: fin_def max_double_def)

lemma fin_80: "fin 200 = Some 200"
  using rd_near [where k = 45 and m = "7036874417766400" and x = "200"]
  by (simp add: fin_def max_double_def)

lemma fin_81: "fin (1 / 5) = Some (3602879701896397 / 18014398509481984)"
  using rd_near [where k = 55 and m = "7205759403792794" and x = "1 / 5"]
  by (simp add: fin_def max_double_def)

lemma fin_82: "fin (1 / 10) = Some (3602879701896397 / 36028797018963968)"
  using rd_near [where k = 56 and m = "7205759403792794" and x = "1 / 10"]
  by (simp add: fin_def max_double_def)

lemma fin_83: "fin (12801 / 128) = Some (12801 / 128)"
  using rd_near [where k = 46 and m = "7037424173580288" and x = "12801 / 128"]
  by (simp add: fin_def max_double_def)

lemma fin_84: "fin (1 / 128) = Some (1 / 128)"
  using rd_near [where k = 59 and m = "4503599627370496" and x = "1 / 128"]
  by (simp add: fin_def max_double_def)

lemma fin_85: "fin (6401 / 64) = Some (6401 / 64)"
  using rd_near [where k = 46 and m = "7037973929394176" and x = "6401 / 64"]
  by (simp add: fin_def max_double_def)

lemma fin_86: "fin (281474976710656 / 3602879701896397) = Some (5 / 64)"
  using rd_near [where k = 56 and m = "5629499534213120" and x = "281474976710656 / 3602879701896397"]
  by (simp add: fin_def max_double_def)

lemma fin_87: "fin (1 / 2) = Some (1 / 2)"
  using rd_near [where k = 53 and m = "4503599627370496" and x = "1 / 2"]
  by (simp add: fin_def max_double_def)

lemma fin_88: "fin 320 = Some 320"
  using rd_near [where k = 44 and m = "5629499534213120" and x = "320"]
  by (simp add: fin_def max_double_def)

lemma fin_89: "fin 240 = Some 240"
  using rd_near [where k = 45 and m = "8444249301319680" and x = "240"]
  by (simp add: fin_def max_double_def)

lemmas fin_facts = fin_0 fin_1 fin_2 fin_3 fin_4 fin_5 fin_6 fin_7 fin_8 fin_9 fin_10 fin_11
  fin_12 fin_13 fin_14 fin_15 fin_16 fin_17 fin_18 fin_19 fin_20 fin_21 fin_22 fin_23 fin_24
  fin_25 fin_26 fin_27 fin_28 fin_29 fin_30 fin_31 fin_32 fin_33 fin_34 fin_35 fin_36 fin_37
  fin_38 fin_39 fin_40 fin_41 fin_42 fin_43 fin_44 fin_45 fin_46 fin_47 fin_48 fin_49 fin_50
  fin_51 fin_52 fin_53 fin_54 fin_55 fin_56 fin_57 fin_58 fin_59 fin_60 fin_61 fin_62 fin_63
  fin_64 fin_65 fin_66 fin_67 fin_68 fin_69 fin_70 fin_71 fin_72 fin_73 fin_74 fin_75 fin_76
  fin_77 fin_78 fin_79 fin_80 fin_81 fin_82 fin_83 fin_84 fin_85 fin_86 fin_87 fin_88 fin_89

text \<open>The operations of doubles between a distance and the score are monotone.\<close>

lemma fin_mono: "x \<le> y \<Longrightarrow> fin x = Some u \<Longrightarrow> fin y = Some v \<Longrightarrow> u \<le> v"
  using rd_mono [of x y] by (simp add: fin_def split: if_splits)

lemma fin_zero: "fin 0 = Some 0"
  by (simp add: fin_def rd_zero max_double_def)

lemma fin_nonneg: "0 \<le> x \<Longrightarrow> fin x = Some u \<Longrightarrow> 0 \<le> u"
  using fin_mono [of 0 x 0 u] by (simp add: fin_zero)

lemma not_above_doubles:
  "not_above doubles a b \<longleftrightarrow> (case (a, b) of (Some u, Some v) \<Rightarrow> u \<le> v | _ \<Rightarrow> True)"
  by (auto simp add: not_above_def doubles_fields split: option.splits)

lemma not_above_fin: "x \<le> y \<Longrightarrow> not_above doubles (fin x) (fin y)"
  using fin_mono [of x y] by (auto simp add: not_above_doubles split: option.splits)

lemma weight_doubles_nonneg: "weight_js doubles n = Some c \<Longrightarrow> 0 \<le> c"
proof -
  assume c: "weight_js doubles n = Some c"
  have table: "\<forall>v \<in> snd ` set keypointWeights. 0 \<le> v" by (simp add: keypointWeights_def)
  show ?thesis
  proof (cases "map_of keypointWeights n")
    case None
    with c have "fin 1 = Some c"
      by (simp add: weight_js_def doubles_fields split: if_splits)
    then show ?thesis using fin_nonneg [of 1 c] by simp
  next
    case (Some v)
    then have "(n, v) \<in> set keypointWeights" by (rule map_of_SomeD)
    with table have "0 \<le> v" by force
    moreover from c Some have "fin 1 = Some c \<or> fin v = Some c"
      by (simp add: weight_js_def doubles_fields split: if_splits)
    ultimately show ?thesis using fin_nonneg [of 1 c] fin_nonneg [of v c] by auto
  qed
qed

lemma not_above_SomeD: "not_above doubles (Some u) (Some v) \<Longrightarrow> u \<le> v"
  by (simp add: not_above_doubles)

lemma not_above_rounded:
  assumes "\<And>u v. a = Some u \<Longrightarrow> b = Some v \<Longrightarrow> f u \<le> g v"
  shows "not_above doubles (case a of Some u \<Rightarrow> fin (f u) | None \<Rightarrow> None)
           (case b of Some v \<Rightarrow> fin (g v) | None \<Rightarrow> None)"
proof (cases a)
  case None
  then show ?thesis by (simp add: not_above_doubles)
next
  case a: (Some u)
  show ?thesis
  proof (cases b)
    case None
    then show ?thesis by (simp add: not_above_doubles split: option.splits)
  next
    case b: (Some v)
    from assms a b have "f u \<le> g v" by simp
    then show ?thesis unfolding a b by (simp add: not_above_fin)
  qed
qed

lemma mul_doubles:
  "js_mul doubles a (Some c) = (case a of Some u \<Rightarrow> fin (u * c) | None \<Rightarrow> None)"
  "js_mul doubles a None = None"
  by (simp_all add: doubles_fields rounded_def split: option.splits)

lemma mul_doubles_monotone:
  assumes "not_above doubles a b" and "\<And>v. c = Some v \<Longrightarrow> 0 \<le> v"
  shows "not_above doubles (js_mul doubles a c) (js_mul doubles b c)"
proof (cases c)
  case None
  then show ?thesis by (simp add: mul_doubles not_above_doubles)
next
  case (Some v)
  with assms(2) have v: "0 \<le> v" by simp
  show ?thesis unfolding Some mul_doubles
  proof (rule not_above_rounded)
    fix x y assume "a = Some x" "b = Some y"
    with assms(1) have "x \<le> y" by (simp add: not_above_doubles)
    then show "x * v \<le> y * v" using v by (rule mult_right_mono)
  qed
qed

lemma sub_doubles:
  "js_sub doubles (Some c) a = (case a of Some u \<Rightarrow> fin (c - u) | None \<Rightarrow> None)"
  "js_sub doubles None a = None"
  by (simp_all add: doubles_fields rounded_def split: option.splits)

lemma sub_doubles_antitone:
  assumes "not_above doubles a b"
  shows "not_above doubles (js_sub doubles c b) (js_sub doubles c a)"
proof (cases c)
  case None
  then show ?thesis by (simp add: sub_doubles not_above_doubles)
next
  case (Some v)
  show ?thesis unfolding Some sub_doubles
  proof (rule not_above_rounded)
    fix x y assume "b = Some x" "a = Some y"
    with assms(1) have "y \<le> x" by (simp add: not_above_doubles)
    then show "v - x \<le> v - y" by simp
  qed
qed

lemma max_doubles_monotone:
  assumes "not_above doubles a b"
  shows "not_above doubles (js_max doubles c a) (js_max doubles c b)"
  using assms
  by (cases a; cases b; cases c) (auto simp add: doubles_fields lift2_def not_above_doubles)

lemma add_doubles:
  "js_add doubles a (Some c) = (case a of Some u \<Rightarrow> fin (u + c) | None \<Rightarrow> None)"
  "js_add doubles a None = None"
  by (simp_all add: doubles_fields rounded_def split: option.splits)

lemma add_doubles_monotone:
  assumes "not_above doubles a b" "not_above doubles c d"
  shows "not_above doubles (js_add doubles a c) (js_add doubles b d)"
proof (cases c)
  case None
  then show ?thesis by (simp add: add_doubles not_above_doubles)
next
  case c: (Some u)
  show ?thesis
  proof (cases d)
    case None
    then show ?thesis by (simp add: add_doubles not_above_doubles split: option.splits)
  next
    case d: (Some v)
    from assms(2) have uv: "u \<le> v" unfolding c d by (rule not_above_SomeD)
    show ?thesis unfolding c d add_doubles
    proof (rule not_above_rounded)
      fix x y assume "a = Some x" "b = Some y"
      with assms(1) have "x \<le> y" by (simp add: not_above_doubles)
      with uv show "x + u \<le> y + v" by simp
    qed
  qed
qed

lemma divide_doubles:
  "v \<noteq> 0 \<Longrightarrow> js_divide doubles a (Some v) = (case a of Some u \<Rightarrow> fin (u / v) | None \<Rightarrow> None)"
  by (simp add: doubles_fields split: option.splits)

lemma divide_doubles_monotone:
  assumes "not_above doubles a b" "js_gt doubles w (js_num doubles 0)"
  shows "not_above doubles (js_divide doubles a w) (js_divide doubles b w)"
proof -
  from assms(2) obtain v where w: "w = Some v" and v: "0 < v"
    by (cases w) (simp_all add: doubles_fields fin_zero)
  then have "v \<noteq> 0" by simp
  show ?thesis unfolding w divide_doubles [OF \<open>v \<noteq> 0\<close>]
  proof (rule not_above_rounded)
    fix x y assume "a = Some x" "b = Some y"
    with assms(1) have "x \<le> y" by (simp add: not_above_doubles)
    then show "x / v \<le> y / v" using v by (simp add: divide_right_mono)
  qed
qed

lemma round_doubles_monotone:
  assumes "not_above doubles a b"
  shows "not_above doubles (js_round doubles a) (js_round doubles b)"
  using assms
  by (cases a; cases b) (simp_all add: doubles_fields not_above_doubles Math_round_def floor_mono)

lemma num_doubles_nonneg: "0 \<le> c \<Longrightarrow> js_num doubles c = Some v \<Longrightarrow> 0 \<le> v"
  by (simp add: doubles_fields fin_nonneg)

lemma monotone_doubles: "monotone_arithmetic doubles"
  unfolding monotone_arithmetic_def
proof (intro conjI allI impI)
  fix a :: "real option"
  show "not_above doubles a a" by (simp add: not_above_doubles split: option.splits)
next
  fix a b :: "real option"
  assume "not_above doubles a b"
  then show "not_above doubles (js_mul doubles a (js_num doubles 5)) (js_mul doubles b (js_num doubles 5))"
    by (rule mul_doubles_monotone) (rule num_doubles_nonneg, simp_all)
next
  fix a b :: "real option"
  assume "not_above doubles a b"
  then show "not_above doubles (js_sub doubles (js_num doubles 1) b) (js_sub doubles (js_num doubles 1) a)"
    by (rule sub_doubles_antitone)
next
  fix a b :: "real option"
  assume "not_above doubles a b"
  then show "not_above doubles (js_max doubles (js_num doubles 0) a) (js_max doubles (js_num doubles 0) b)"
    by (rule max_doubles_monotone)
next
  fix a b :: "real option" and n
  assume "not_above doubles a b"
  then show "not_above doubles (js_mul doubles a (weight_js doubles n)) (js_mul doubles b (weight_js doubles n))"
    by (rule mul_doubles_monotone) (rule weight_doubles_nonneg)
next
  fix a b c d :: "real option"
  assume "not_above doubles a b" "not_above doubles c d"
  then show "not_above doubles (js_add doubles a c) (js_add doubles b d)"
    by (rule add_doubles_monotone)
next
  fix a b w :: "real option"
  assume "not_above doubles a b" "js_gt doubles w (js_num doubles 0)"
  then show "not_above doubles (js_divide doubles a w) (js_divide doubles b w)"
    by (rule divide_doubles_monotone)
next
  fix a b :: "real option"
  assume "not_above doubles a b"
  then show "not_above doubles (js_mul doubles a (js_num doubles 100)) (js_mul doubles b (js_num doubles 100))"
    by (rule mul_doubles_monotone) (rule num_doubles_nonneg, simp_all)
next
  fix a b :: "real option"
  assume "not_above doubles a b"
  then show "not_above doubles (js_round doubles a) (js_round doubles b)"
    by (rule round_doubles_monotone)
qed



subsection \<open>The example frames\<close>

text \<open>
  The distance of the left shoulder from its target as the code computes it, 0.125 and
  0.12499999999999999, and the two scores; the second position is the farther one.
\<close>

lemma distance_tie:
  "distance_js doubles \<lparr>pt_x = 0.4, pt_y = 0.25\<rparr>
     (keypoint_at ''left_shoulder'' 176 120 0.9) 640 480 = Some (1 / 8)"
  by (simp add: distance_js_def keypoint_at_def doubles_fields rounded_simps fin_facts Let_def)

lemma distance_farther:
  "distance_js doubles \<lparr>pt_x = 0.4, pt_y = 0.25\<rparr>
     (keypoint_at ''left_shoulder'' (8389327354644429 / 35184372088832)
        (6281697650981713 / 35184372088832) 0.9) 640 480 =
     Some (9007199254740991 / 72057594037927936)"
  by (simp add: distance_js_def keypoint_at_def doubles_fields rounded_simps fin_facts Let_def)

lemma score_tie: "score_js (scorePose_js doubles tie_pose side_chest 640 480) = Some 12"
  by (simp add: scorePose_js_def tie_pose_def side_chest_def keypointMap_js_def
      keypointMap_set_js_def score_above_js_def keypoint_at_def weight_js_def keypointWeights_def
      keypointScore_js_def distance_js_def doubles_fields rounded_simps lift2_def fin_facts
      Let_def Math_round_def)

lemma score_farther: "score_js (scorePose_js doubles farther_pose side_chest 640 480) = Some 13"
  by (simp add: scorePose_js_def farther_pose_def side_chest_def keypointMap_js_def
      keypointMap_set_js_def score_above_js_def keypoint_at_def weight_js_def keypointWeights_def
      keypointScore_js_def distance_js_def doubles_fields rounded_simps lift2_def fin_facts
      Let_def Math_round_def)

lemma farther_exact:
  "spec_distance \<lparr>pt_x = 0.4, pt_y = 0.25\<rparr> (keypoint_at ''left_shoulder'' 176 120 0.9) 640 480 <
   spec_distance \<lparr>pt_x = 0.4, pt_y = 0.25\<rparr>
     (keypoint_at ''left_shoulder'' (8389327354644429 / 35184372088832)
        (6281697650981713 / 35184372088832) 0.9) 640 480"
  by (simp add: spec_distance_def keypoint_at_def power2_eq_square)
lemma detected_tie_pose:
  "detected_js doubles tie_pose =
     [''left_shoulder'' \<mapsto> keypoint_at ''left_shoulder'' 176 120 0.9,
      ''left_hip'' \<mapsto> keypoint_at ''left_hip'' 264 264 0.9,
      ''left_knee'' \<mapsto> keypoint_at ''left_knee'' 184 384 0.9]"
  by (simp add: detected_js_def tie_pose_def keypointMap_js_def keypointMap_set_js_def
      score_above_js_def keypoint_at_def doubles_fields fin_facts)

lemma detected_farther_pose:
  "detected_js doubles farther_pose =
     [''left_shoulder'' \<mapsto>
        keypoint_at ''left_shoulder'' (8389327354644429 / 35184372088832)
          (6281697650981713 / 35184372088832) 0.9,
      ''left_hip'' \<mapsto> keypoint_at ''left_hip'' 264 264 0.9,
      ''left_knee'' \<mapsto> keypoint_at ''left_knee'' 184 384 0.9]"
  by (simp add: detected_js_def farther_pose_def keypointMap_js_def keypointMap_set_js_def
      score_above_js_def keypoint_at_def doubles_fields fin_facts)

section \<open>Properties of scorePose\<close>

text \<open>The table of the code is the table of the specification, and every weight is positive.\<close>

lemma weight_of_spec: "weight_of n = spec_weight n"
  by (simp add: weight_of_def spec_weight_def keypointWeights_def)

lemma weight_of_pos: "0 < weight_of n"
  by (simp add: weight_of_spec spec_weight_def)

lemma distance_defined:
  "w \<noteq> 0 \<Longrightarrow> h \<noteq> 0 \<Longrightarrow> distance target k w h = Some (spec_distance target k w h)"
  by (simp add: distance_def spec_distance_def js_div_def Let_def)

text \<open>
  The loop in closed form: with nonzero dimensions it always completes, and it adds to the four
  variables what the parts contribute.
\<close>

lemma checkKeypoints_closed:
  assumes "w \<noteq> 0" "h \<noteq> 0"
  shows "checkKeypoints m w h parts t =
     Some \<lparr>matched = matched t @ filter (\<lambda>n. m n \<noteq> None) (map fst parts),
           missing = missing t @ filter (\<lambda>n. m n = None) (map fst parts),
           totalScore = totalScore t + sum_list (map (part_score m w h) parts),
           totalWeight = totalWeight t + sum_list (map (\<lambda>e. weight_of (fst e)) parts)\<rparr>"
  using assms
proof (induction parts arbitrary: t)
  case Nil
  then show ?case by simp
next
  case (Cons e parts)
  obtain n target where e: "e = (n, target)" by (cases e)
  show ?case
  proof (cases "m n")
    case None
    then show ?thesis using Cons e by (simp add: part_score_def Let_def)
  next
    case (Some k)
    then show ?thesis using Cons e by (simp add: part_score_def Let_def distance_defined algebra_simps)
  qed
qed

text \<open>With nothing detected the loop divides nowhere and completes for all dimensions.\<close>

lemma checkKeypoints_nothing:
  "checkKeypoints Map.empty w h parts t =
     Some (t\<lparr>missing := missing t @ map fst parts,
             totalWeight := totalWeight t + sum_list (map (\<lambda>e. weight_of (fst e)) parts)\<rparr>)"
proof (induction parts arbitrary: t)
  case Nil
  then show ?case by simp
next
  case (Cons e parts)
  obtain n target where e: "e = (n, target)" by (cases e)
  show ?case using Cons e by (simp add: Let_def algebra_simps)
qed

lemma Math_round_zero: "Math_round 0 = 0"
  by (simp add: Math_round_def)

lemma Math_round_bounds: "0 \<le> v \<Longrightarrow> v \<le> 100 \<Longrightarrow> 0 \<le> Math_round v \<and> Math_round v \<le> 100"
  unfolding Math_round_def by (simp; linarith)

lemma keypointScore_bounds: "0 \<le> d \<Longrightarrow> 0 \<le> keypointScore d \<and> keypointScore d \<le> 1"
  by (simp add: keypointScore_def)

lemma spec_distance_nonneg: "0 \<le> spec_distance target k w h"
  by (simp add: spec_distance_def)

lemma part_score_bounds:
  "0 \<le> part_score m w h e \<and> part_score m w h e \<le> weight_of (fst e)"
proof (cases "m (fst e)")
  case None
  then show ?thesis using weight_of_pos [of "fst e"] by (simp add: part_score_def)
next
  case (Some k)
  have "0 \<le> keypointScore (spec_distance (snd e) k w h)"
    and "keypointScore (spec_distance (snd e) k w h) \<le> 1"
    using keypointScore_bounds [OF spec_distance_nonneg] by auto
  then show ?thesis using Some weight_of_pos [of "fst e"]
    by (simp add: part_score_def mult_left_le_one_le)
qed

lemma sum_part_score_bounds:
  "0 \<le> sum_list (map (part_score m w h) parts) \<and>
   sum_list (map (part_score m w h) parts) \<le> sum_list (map (\<lambda>e. weight_of (fst e)) parts)"
proof (induction parts)
  case Nil
  then show ?case by simp
next
  case (Cons e parts)
  then show ?case using part_score_bounds [of m w h e] by simp
qed


lemma sum_part_score_nothing: "sum_list (map (part_score Map.empty w h) parts) = 0"
  by (induction parts) (simp_all add: part_score_def)

text \<open>The result of \<^verbatim>\<open>scorePose\<close> for nonzero dimensions, both returns of the code included.\<close>

lemma scorePose_closed:
  assumes "w \<noteq> 0" "h \<noteq> 0"
  shows "scorePose p t w h =
     Some \<lparr>score =
             Math_round
               (if sum_list (map (\<lambda>e. weight_of (fst e)) (template_keypoints t)) > 0
                then sum_list (map (part_score (detected p) w h) (template_keypoints t)) /
                     sum_list (map (\<lambda>e. weight_of (fst e)) (template_keypoints t)) * 100
                else 0),
           matchedKeypoints =
             length (filter (\<lambda>n. detected p n \<noteq> None) (Object_keys (template_keypoints t))),
           totalKeypoints = length (Object_keys (template_keypoints t)),
           missingKeypoints =
             filter (\<lambda>n. detected p n = None) (Object_keys (template_keypoints t))\<rparr>"
proof (cases "pose_keypoints p")
  case None
  then show ?thesis
    by (simp add: scorePose_def detected_def Let_def sum_part_score_nothing Math_round_zero)
next
  case (Some ks)
  show ?thesis
  proof (cases ks)
    case Nil
    with Some show ?thesis
      by (simp add: scorePose_def detected_def keypointMap_def Let_def
          sum_part_score_nothing Math_round_zero)
  next
    case (Cons k ks')
    with Some show ?thesis
      by (simp add: scorePose_def detected_def Let_def Object_keys_def
          checkKeypoints_closed [OF assms])
  qed
qed

lemma fold_keypointMap_set_skip:
  "\<forall>k\<in>set ks. keypointMap_set k m = m \<Longrightarrow> fold keypointMap_set ks m = m"
  by (induction ks) simp_all

lemma keypointMap_set_skip:
  "\<not> (kp_name k \<noteq> None \<and> (\<exists>s. kp_score k = Some s \<and> s > 3 / 10)) \<Longrightarrow> keypointMap_set k m = m"
  by (auto simp add: keypointMap_set_def score_above_def split: option.splits)

lemma keypointMap_nothing:
  assumes "\<forall>k\<in>set ks. \<not> (kp_name k \<noteq> None \<and> (\<exists>s. kp_score k = Some s \<and> s > 3 / 10))"
  shows "keypointMap ks = Map.empty"
  unfolding keypointMap_def
  by (rule fold_keypointMap_set_skip) (use assms keypointMap_set_skip in blast)

lemma detected_upper_body_pose:
  "detected upper_body_pose =
     [''nose'' \<mapsto> keypoint_at ''nose'' 300 60 0.9,
      ''left_shoulder'' \<mapsto> keypoint_at ''left_shoulder'' 256 120 0.9,
      ''right_shoulder'' \<mapsto> keypoint_at ''right_shoulder'' 352 120 0.9]"
  by (simp add: detected_def upper_body_pose_def keypointMap_def keypointMap_set_def
      keypoint_at_def score_above_def)


subsection \<open>The counts, for every arithmetic\<close>

text \<open>
  The loop over the template's parts records a name as matched or as missing by the lookup
  alone.
\<close>

lemma checkKeypoints_js_names:
  "matched_js (checkKeypoints_js A m w h parts t) =
     matched_js t @ filter (\<lambda>n. m n \<noteq> None) (map fst parts) \<and>
   missing_js (checkKeypoints_js A m w h parts t) =
     missing_js t @ filter (\<lambda>n. m n = None) (map fst parts)"
proof (induction parts arbitrary: t)
  case Nil
  then show ?case by simp
next
  case (Cons e parts)
  obtain n target where e: "e = (n, target)" by (cases e)
  show ?case
    by (cases "m n") (simp_all add: e Cons.IH Let_def)
qed

lemma scorePose_js_counts:
  "matchedKeypoints_js (scorePose_js A p t w h) =
     length (filter (\<lambda>n. detected_js A p n \<noteq> None) (Object_keys (template_keypoints t))) \<and>
   missingKeypoints_js (scorePose_js A p t w h) =
     filter (\<lambda>n. detected_js A p n = None) (Object_keys (template_keypoints t)) \<and>
   totalKeypoints_js (scorePose_js A p t w h) = length (Object_keys (template_keypoints t))"
proof (cases "pose_keypoints p")
  case None
  then show ?thesis by (simp add: scorePose_js_def detected_js_def Let_def)
next
  case (Some ks)
  show ?thesis
  proof (cases ks)
    case Nil
    with Some show ?thesis
      by (simp add: scorePose_js_def detected_js_def keypointMap_js_def Let_def)
  next
    case (Cons k ks')
    with Some show ?thesis
      by (simp add: scorePose_js_def detected_js_def Let_def Object_keys_def
          checkKeypoints_js_names)
  qed
qed

text \<open>
  With \<open>partial_reals\<close> as the arithmetic, the function is the real-number model: the
  two have the same lookups, weights and distances, the same loop, and the same result.
  Where the real-number model has no result, the score over \<open>partial_reals\<close> is nothing.
\<close>

lemma partial_reals_fields:
  "js_num partial_reals = Some"
  "js_add partial_reals = lift2 (+)"
  "js_sub partial_reals = lift2 (-)"
  "js_mul partial_reals = lift2 (*)"
  "js_divide partial_reals =
     (\<lambda>a b. case (a, b) of (Some u, Some v) \<Rightarrow> js_div u v | _ \<Rightarrow> None)"
  "js_square partial_reals = map_option (\<lambda>v. v ^ 2)"
  "js_sqrt partial_reals = map_option sqrt"
  "js_abs partial_reals = map_option abs"
  "js_max partial_reals = lift2 max"
  "js_round partial_reals = map_option Math_round"
  "js_gt partial_reals = (\<lambda>a b. case (a, b) of (Some u, Some v) \<Rightarrow> u > v | _ \<Rightarrow> False)"
  "js_inherited partial_reals = (\<lambda>n. None)"
  by (simp_all add: partial_reals_def)

lemma lift2_simps:
  "lift2 f (Some u) (Some v) = Some (f u v)"
  "lift2 f None b = None"
  "lift2 f a None = None"
  by (simp_all add: lift2_def split: option.splits)

lemma score_above_partial_reals: "score_above_js partial_reals c s = score_above c s"
  by (simp add: score_above_js_def score_above_def partial_reals_fields split: option.splits)

lemma keypointMap_set_partial_reals: "keypointMap_set_js partial_reals = keypointMap_set"
  by (intro ext)
     (simp add: keypointMap_set_js_def keypointMap_set_def score_above_partial_reals
        split: option.splits)

lemma keypointMap_partial_reals: "keypointMap_js partial_reals ks = keypointMap ks"
  by (simp add: keypointMap_js_def keypointMap_def keypointMap_set_partial_reals)

lemma detected_partial_reals: "detected_js partial_reals p = detected p"
  by (simp add: detected_js_def detected_def keypointMap_partial_reals split: option.splits)











text \<open>
  Claim C2. For every call of \<^verbatim>\<open>scorePose\<close>, whatever the arithmetic computes (a zero frame
  dimension, \<^verbatim>\<open>NaN\<close> and inherited weights included), the result satisfies
  \<open>matchedKeypoints + |missingKeypoints| = totalKeypoints\<close>, and \<open>totalKeypoints\<close> is the
  number of keys of \<^verbatim>\<open>template.keypoints\<close>: the missing names are exactly the template names
  that are not detected, in the template's order, and the matched count is the number of
  template names that are detected.
\<close>

theorem scorePose_bookkeeping:
  "matchedKeypoints_js (scorePose_js A p t w h) +
     length (missingKeypoints_js (scorePose_js A p t w h)) =
     totalKeypoints_js (scorePose_js A p t w h) \<and>
   totalKeypoints_js (scorePose_js A p t w h) = length (Object_keys (template_keypoints t)) \<and>
   matchedKeypoints_js (scorePose_js A p t w h) =
     length (filter (\<lambda>n. detected_js A p n \<noteq> None) (Object_keys (template_keypoints t))) \<and>
   missingKeypoints_js (scorePose_js A p t w h) =
     filter (\<lambda>n. detected_js A p n = None) (Object_keys (template_keypoints t))"
  using scorePose_js_counts [of A p t w h]
    sum_length_filter_compl [of "\<lambda>n. detected_js A p n \<noteq> None"
      "Object_keys (template_keypoints t)"]
  by simp

theorem scorePose_bookkeeping_witness:
  "scorePose upper_body_pose side_chest 0 480 = None \<and>
   matchedKeypoints_js (scorePose_js doubles upper_body_pose side_chest 0 480) = 2 \<and>
   length (missingKeypoints_js (scorePose_js doubles upper_body_pose side_chest 0 480)) = 8 \<and>
   totalKeypoints_js (scorePose_js doubles upper_body_pose side_chest 0 480) = 10"
proof -
  have none: "scorePose upper_body_pose side_chest 0 480 = None"
    by (simp add: scorePose_def upper_body_pose_def side_chest_def Object_keys_def Let_def
        keypointMap_def keypointMap_set_def keypoint_at_def score_above_def distance_def js_div_def)
  have "detected_js doubles upper_body_pose = detected upper_body_pose"
    by (simp add: detected_js_def detected_def upper_body_pose_def keypointMap_js_def
        keypointMap_def keypointMap_set_js_def keypointMap_set_def score_above_js_def
        score_above_def keypoint_at_def doubles_fields fin_facts)
  then have found:
    "filter (\<lambda>n. detected_js doubles upper_body_pose n \<noteq> None)
       (Object_keys (template_keypoints side_chest)) = [''left_shoulder'', ''right_shoulder'']"
    by (simp add: detected_upper_body_pose side_chest_def Object_keys_def)
  have keys: "length (Object_keys (template_keypoints side_chest)) = 10"
    by (simp add: side_chest_def Object_keys_def)
  let ?r = "scorePose_js doubles upper_body_pose side_chest 0 480"
  from scorePose_bookkeeping [of doubles upper_body_pose side_chest 0 480]
  have sum: "matchedKeypoints_js ?r + length (missingKeypoints_js ?r) = totalKeypoints_js ?r"
    and total: "totalKeypoints_js ?r = length (Object_keys (template_keypoints side_chest))"
    and matched: "matchedKeypoints_js ?r =
        length (filter (\<lambda>n. detected_js doubles upper_body_pose n \<noteq> None)
          (Object_keys (template_keypoints side_chest)))"
    by blast+
  from matched found have two: "matchedKeypoints_js ?r = 2" by simp
  from total keys have ten: "totalKeypoints_js ?r = 10" by simp
  from sum two ten have "length (missingKeypoints_js ?r) = 8" by simp
  with none two ten show ?thesis by simp
qed

subsection \<open>The score formula, for every arithmetic\<close>









subsection \<open>Nothing detected\<close>

text \<open>
  Claim C3. When the pose has no keypoints at all, or none of its keypoints has both a name
  and a confidence strictly above 0.3, \<^verbatim>\<open>scorePose\<close> returns, for every template and all
  frame dimensions, the score 0, no matched keypoint, the number of template parts as total,
  and every template part name as missing, in the template's order.
\<close>

theorem scorePose_nothing_detected:
  assumes "pose_keypoints p = None \<or>
           (\<exists>ks. pose_keypoints p = Some ks \<and>
              (\<forall>k\<in>set ks. \<not> (kp_name k \<noteq> None \<and> (\<exists>s. kp_score k = Some s \<and> s > 3 / 10))))"
  shows "scorePose p t w h =
           Some \<lparr>score = 0, matchedKeypoints = 0,
                 totalKeypoints = length (Object_keys (template_keypoints t)),
                 missingKeypoints = Object_keys (template_keypoints t)\<rparr>"
proof (cases "pose_keypoints p")
  case None
  then show ?thesis by (simp add: scorePose_def Let_def)
next
  case (Some ks)
  with assms have
    "\<forall>k\<in>set ks. \<not> (kp_name k \<noteq> None \<and> (\<exists>s. kp_score k = Some s \<and> s > 3 / 10))"
    by simp
  then have "keypointMap ks = Map.empty" by (rule keypointMap_nothing)
  with Some show ?thesis
    by (cases ks)
       (simp_all add: scorePose_def Let_def checkKeypoints_nothing Math_round_zero Object_keys_def)
qed

theorem scorePose_nothing_detected_witness:
  "scorePose faint_pose side_chest 640 480 =
     Some \<lparr>score = 0, matchedKeypoints = 0, totalKeypoints = 10,
           missingKeypoints =
             [''left_shoulder'', ''right_shoulder'', ''left_elbow'', ''right_elbow'',
              ''left_wrist'', ''right_wrist'', ''left_hip'', ''right_hip'', ''left_knee'',
              ''right_knee'']\<rparr> \<and>
   scorePose \<lparr>pose_keypoints = None\<rparr> side_chest 640 480 =
     scorePose faint_pose side_chest 640 480"
  using scorePose_nothing_detected [of faint_pose side_chest 640 480]
    scorePose_nothing_detected [of "\<lparr>pose_keypoints = None\<rparr>" side_chest 640 480]
  by (simp add: faint_pose_def keypoint_at_def side_chest_def Object_keys_def)

subsection \<open>Range of the score\<close>

text \<open>
  Claim C4. For every template, every pose and positive frame dimensions, \<^verbatim>\<open>scorePose\<close>
  returns a result whose score lies in \<open>[0, 100]\<close>.
\<close>

theorem scorePose_score_range:
  assumes "0 < w" "0 < h"
  shows "\<exists>r. scorePose p t w h = Some r \<and> 0 \<le> score r \<and> score r \<le> 100"
proof -
  from assms have nz: "w \<noteq> 0" "h \<noteq> 0" by auto
  let ?W = "sum_list (map (\<lambda>e. weight_of (fst e)) (template_keypoints t))"
  let ?S = "sum_list (map (part_score (detected p) w h) (template_keypoints t))"
  let ?v = "if ?W > 0 then ?S / ?W * 100 else 0"
  have S: "0 \<le> ?S" "?S \<le> ?W" using sum_part_score_bounds [of "detected p" w h] by auto
  have "0 \<le> ?v \<and> ?v \<le> 100"
  proof (cases "?W > 0")
    case True
    with S show ?thesis by (simp add: pos_divide_le_eq)
  next
    case False
    then show ?thesis by simp
  qed
  then have "0 \<le> Math_round ?v \<and> Math_round ?v \<le> 100" using Math_round_bounds by blast
  then show ?thesis by (simp add: scorePose_closed [OF nz])
qed

theorem scorePose_score_range_witness:
  "(0::real) < 640 \<and> (0::real) < 480 \<and>
   (\<exists>r. scorePose upper_body_pose side_chest 640 480 = Some r \<and> 0 \<le> score r \<and> score r \<le> 100)"
  using scorePose_score_range [of 640 480 upper_body_pose side_chest] by simp

subsection \<open>Monotonicity in the computed distance\<close>

lemma monotone_arithmeticD:
  assumes "monotone_arithmetic A"
  shows "not_above A a a"
    and "not_above A a b \<Longrightarrow> not_above A (js_mul A a (js_num A 5)) (js_mul A b (js_num A 5))"
    and "not_above A a b \<Longrightarrow> not_above A (js_sub A (js_num A 1) b) (js_sub A (js_num A 1) a)"
    and "not_above A a b \<Longrightarrow> not_above A (js_max A (js_num A 0) a) (js_max A (js_num A 0) b)"
    and "not_above A a b \<Longrightarrow>
           not_above A (js_mul A a (weight_js A n)) (js_mul A b (weight_js A n))"
    and "not_above A a b \<Longrightarrow> not_above A c d \<Longrightarrow> not_above A (js_add A a c) (js_add A b d)"
    and "not_above A a b \<Longrightarrow> js_gt A w (js_num A 0) \<Longrightarrow>
           not_above A (js_divide A a w) (js_divide A b w)"
    and "not_above A a b \<Longrightarrow>
           not_above A (js_mul A a (js_num A 100)) (js_mul A b (js_num A 100))"
    and "not_above A a b \<Longrightarrow> not_above A (js_round A a) (js_round A b)"
  using assms by (simp_all add: monotone_arithmetic_def)

lemma keypointScore_js_monotone:
  assumes "monotone_arithmetic A" "not_above A d d'"
  shows "not_above A (keypointScore_js A d') (keypointScore_js A d)"
  unfolding keypointScore_js_def
  by (intro monotone_arithmeticD(2,3,4) [OF assms(1)] assms(2))

lemma checkKeypoints_js_monotone:
  assumes mono: "monotone_arithmetic A"
    and same: "\<And>n'. n' \<noteq> n \<Longrightarrow> m' n' = m n'"
    and k: "m n = Some k" "m' n = Some k'"
    and farther: "\<And>target. (n, target) \<in> set parts \<Longrightarrow>
        not_above A (distance_js A target k w h) (distance_js A target k' w h)"
    and start: "totalWeight_js t' = totalWeight_js t"
      "not_above A (totalScore_js t') (totalScore_js t)"
  shows "totalWeight_js (checkKeypoints_js A m' w h parts t') =
           totalWeight_js (checkKeypoints_js A m w h parts t) \<and>
         not_above A (totalScore_js (checkKeypoints_js A m' w h parts t'))
           (totalScore_js (checkKeypoints_js A m w h parts t))"
  using farther start
proof (induction parts arbitrary: t t')
  case Nil
  then show ?case by simp
next
  case (Cons e parts)
  obtain name target where e: "e = (name, target)" by (cases e)
  note add = monotone_arithmeticD(6) [OF mono]
  note weight = monotone_arithmeticD(5) [OF mono]
  note refl = monotone_arithmeticD(1) [OF mono]
  have rest: "\<And>target. (n, target) \<in> set parts \<Longrightarrow>
      not_above A (distance_js A target k w h) (distance_js A target k' w h)"
    using Cons.prems(1) by simp
  show ?case
  proof (cases "name = n")
    case True
    have "not_above A (distance_js A target k w h) (distance_js A target k' w h)"
      using Cons.prems(1) [of target] by (simp add: e True)
    then have "not_above A (keypointScore_js A (distance_js A target k' w h))
        (keypointScore_js A (distance_js A target k w h))"
      by (rule keypointScore_js_monotone [OF mono])
    then have "not_above A
        (js_add A (totalScore_js t')
           (js_mul A (keypointScore_js A (distance_js A target k' w h)) (weight_js A name)))
        (js_add A (totalScore_js t)
           (js_mul A (keypointScore_js A (distance_js A target k w h)) (weight_js A name)))"
      using Cons.prems(3) by (intro add weight)
    then show ?thesis
      using Cons.prems(2) k by (simp add: e True Let_def Cons.IH [OF rest])
  next
    case False
    then have eq: "m' name = m name" by (rule same)
    show ?thesis
    proof (cases "m name")
      case None
      then show ?thesis
        using Cons.prems(2,3) eq by (simp add: e Let_def Cons.IH [OF rest])
    next
      case (Some kk)
      have "not_above A
          (js_add A (totalScore_js t')
             (js_mul A (keypointScore_js A (distance_js A target kk w h)) (weight_js A name)))
          (js_add A (totalScore_js t)
             (js_mul A (keypointScore_js A (distance_js A target kk w h)) (weight_js A name)))"
        using Cons.prems(3) by (intro add refl)
      then show ?thesis
        using Cons.prems(2) eq Some by (simp add: e Let_def Cons.IH [OF rest])
    qed
  qed
qed

lemma detected_js_keypoints:
  assumes "detected_js A p n = Some k"
  obtains kp ks where "pose_keypoints p = Some (kp # ks)"
proof (cases "pose_keypoints p")
  case None
  with assms show ?thesis by (simp add: detected_js_def)
next
  case (Some ks)
  with assms have "ks \<noteq> []" by (auto simp add: detected_js_def keypointMap_js_def)
  with Some that show ?thesis by (cases ks) auto
qed

text \<open>
  Claim C6, as the code has it. Template, frame dimensions and all other detected keypoints
  are held fixed, and the detected part \<open>n\<close> is moved from \<open>k\<close> to \<open>k'\<close>. If the distance
  from the target that the code computes for \<open>k\<close> is not above the one that it computes
  for \<open>k'\<close>, then the score of \<^verbatim>\<open>scorePose\<close> with \<open>k'\<close> is not above the score with \<open>k\<close>.
  This holds in every arithmetic with monotone operations, and the arithmetic of doubles
  is one.
\<close>

theorem scorePose_monotone:
  assumes mono: "monotone_arithmetic A"
    and same: "\<And>n'. n' \<noteq> n \<Longrightarrow> detected_js A p' n' = detected_js A p n'"
    and k: "detected_js A p n = Some k" "detected_js A p' n = Some k'"
    and farther: "\<And>target. (n, target) \<in> set (template_keypoints t) \<Longrightarrow>
        not_above A (distance_js A target k w h) (distance_js A target k' w h)"
  shows "not_above A (score_js (scorePose_js A p' t w h)) (score_js (scorePose_js A p t w h))"
proof -
  from k(1) obtain kp ks where p: "pose_keypoints p = Some (kp # ks)"
    by (rule detected_js_keypoints)
  from k(2) obtain kp' ks' where p': "pose_keypoints p' = Some (kp' # ks')"
    by (rule detected_js_keypoints)
  let ?t0 = "\<lparr>matched_js = [], missing_js = [], totalScore_js = js_num A 0,
              totalWeight_js = js_num A 0\<rparr>"
  let ?T = "checkKeypoints_js A (detected_js A p) w h (template_keypoints t) ?t0"
  let ?T' = "checkKeypoints_js A (detected_js A p') w h (template_keypoints t) ?t0"
  note refl = monotone_arithmeticD(1) [OF mono]
  have T: "totalWeight_js ?T' = totalWeight_js ?T \<and>
      not_above A (totalScore_js ?T') (totalScore_js ?T)"
    by (rule checkKeypoints_js_monotone
        [where m = "detected_js A p" and m' = "detected_js A p'" and n = n and k = k and k' = k',
          OF mono same k farther])
      (simp_all add: refl)
  have final: "not_above A
      (js_round A (if js_gt A (totalWeight_js ?T') (js_num A 0) then
         js_mul A (js_divide A (totalScore_js ?T') (totalWeight_js ?T')) (js_num A 100)
       else js_num A 0))
      (js_round A (if js_gt A (totalWeight_js ?T) (js_num A 0) then
         js_mul A (js_divide A (totalScore_js ?T) (totalWeight_js ?T)) (js_num A 100)
       else js_num A 0))"
  proof (cases "js_gt A (totalWeight_js ?T) (js_num A 0)")
    case True
    with T have "not_above A (js_divide A (totalScore_js ?T') (totalWeight_js ?T))
        (js_divide A (totalScore_js ?T) (totalWeight_js ?T))"
      by (intro monotone_arithmeticD(7) [OF mono]) simp_all
    then have "not_above A
        (js_round A (js_mul A (js_divide A (totalScore_js ?T') (totalWeight_js ?T)) (js_num A 100)))
        (js_round A (js_mul A (js_divide A (totalScore_js ?T) (totalWeight_js ?T)) (js_num A 100)))"
      by (intro monotone_arithmeticD(8,9) [OF mono])
    with True T show ?thesis by simp
  next
    case False
    with T show ?thesis by (simp add: refl)
  qed
  have "score_js (scorePose_js A p t w h) =
      js_round A (if js_gt A (totalWeight_js ?T) (js_num A 0) then
         js_mul A (js_divide A (totalScore_js ?T) (totalWeight_js ?T)) (js_num A 100)
       else js_num A 0)"
    using p by (simp add: scorePose_js_def detected_js_def Let_def)
  moreover have "score_js (scorePose_js A p' t w h) =
      js_round A (if js_gt A (totalWeight_js ?T') (js_num A 0) then
         js_mul A (js_divide A (totalScore_js ?T') (totalWeight_js ?T')) (js_num A 100)
       else js_num A 0)"
    using p' by (simp add: scorePose_js_def detected_js_def Let_def)
  ultimately show ?thesis using final by simp
qed

theorem scorePose_monotone_witness:
  "distance_js doubles \<lparr>pt_x = 0.4, pt_y = 0.25\<rparr>
     (keypoint_at ''left_shoulder'' (8389327354644429 / 35184372088832)
        (6281697650981713 / 35184372088832) 0.9) 640 480 =
     Some (9007199254740991 / 72057594037927936) \<and>
   distance_js doubles \<lparr>pt_x = 0.4, pt_y = 0.25\<rparr>
     (keypoint_at ''left_shoulder'' 176 120 0.9) 640 480 = Some (1 / 8) \<and>
   not_above doubles (score_js (scorePose_js doubles tie_pose side_chest 640 480))
     (score_js (scorePose_js doubles farther_pose side_chest 640 480)) \<and>
   score_js (scorePose_js doubles tie_pose side_chest 640 480) = Some 12 \<and>
   score_js (scorePose_js doubles farther_pose side_chest 640 480) = Some 13"
proof -
  let ?far = "keypoint_at ''left_shoulder'' (8389327354644429 / 35184372088832)
      (6281697650981713 / 35184372088832) 0.9"
  let ?near = "keypoint_at ''left_shoulder'' 176 120 0.9"
  have same: "detected_js doubles tie_pose n' = detected_js doubles farther_pose n'"
    if "n' \<noteq> ''left_shoulder''" for n'
    using that by (simp add: detected_tie_pose detected_farther_pose)
  have far: "detected_js doubles farther_pose ''left_shoulder'' = Some ?far"
    by (simp add: detected_farther_pose)
  have near: "detected_js doubles tie_pose ''left_shoulder'' = Some ?near"
    by (simp add: detected_tie_pose)
  have farther: "not_above doubles (distance_js doubles target ?far 640 480)
      (distance_js doubles target ?near 640 480)"
    if "(''left_shoulder'', target) \<in> set (template_keypoints side_chest)" for target
  proof -
    from that have target: "target = \<lparr>pt_x = 0.4, pt_y = 0.25\<rparr>"
      by (simp add: side_chest_def)
    show ?thesis unfolding target distance_tie distance_farther by (simp add: not_above_doubles)
  qed
  from scorePose_monotone [of doubles "''left_shoulder''" tie_pose farther_pose ?far ?near
      side_chest 640 480, OF monotone_doubles same far near farther]
  have "not_above doubles (score_js (scorePose_js doubles tie_pose side_chest 640 480))
     (score_js (scorePose_js doubles farther_pose side_chest 640 480))" .
  with distance_tie distance_farther score_tie score_farther show ?thesis by simp
qed

text \<open>
  The sentence of C6 fails for the distance of the positions. On the 640 x 480 frame with the
  template \<^verbatim>\<open>side-chest\<close>, left hip and left knee stay where they are and the left shoulder
  moves from (176, 120), at the distance 1/8 from its target, to a position whose distance
  from the target is larger, by less than the rounding of a double. The code computes
  the distance 0.12499999999999999 for it, which is below 1/8, and the score rises from
  12 to 13.
\<close>

theorem scorePose_farther_counterexample:
  "spec_distance \<lparr>pt_x = 0.4, pt_y = 0.25\<rparr> (keypoint_at ''left_shoulder'' 176 120 0.9) 640 480 <
   spec_distance \<lparr>pt_x = 0.4, pt_y = 0.25\<rparr>
     (keypoint_at ''left_shoulder'' (8389327354644429 / 35184372088832)
        (6281697650981713 / 35184372088832) 0.9) 640 480 \<and>
   score_js (scorePose_js doubles tie_pose side_chest 640 480) = Some 12 \<and>
   score_js (scorePose_js doubles farther_pose side_chest 640 480) = Some 13"
  using farther_exact score_tie score_farther by simp

section \<open>Properties of getPoseFeedback\<close>

text \<open>
  The messages of the three blocks are told apart by their first character, so a message of a
  later block is never an overall-score message.
\<close>

lemma overallFeedback_in: "overallFeedback s \<in> set overallMessages"
  by (simp add: overallFeedback_def overallMessages_def)

lemma missingFeedback_heads:
  "x \<in> set (missingFeedback r t) \<Longrightarrow> x \<noteq> [] \<and> hd x \<in> {CHR ''M'', CHR ''S'', CHR ''F''}"
  by (auto simp add: missingFeedback_def Let_def split: if_splits)

lemma poseSpecificFeedback_heads:
  "x \<in> set (poseSpecificFeedback r t) \<Longrightarrow>
     x \<noteq> [] \<and> hd x \<in> {CHR ''R'', CHR ''T'', CHR ''F'', CHR ''S'', CHR ''B''}"
  by (auto simp add: poseSpecificFeedback_def split: if_splits)

lemma overallMessages_heads:
  "x \<in> set overallMessages \<Longrightarrow> hd x \<in> {CHR ''P'', CHR ''G'', CHR ''Y'', CHR ''K''}"
  by (auto simp add: overallMessages_def)

lemma missingFeedback_not_overall: "x \<in> set (missingFeedback r t) \<Longrightarrow> x \<notin> set overallMessages"
  using missingFeedback_heads [of x r t] overallMessages_heads [of x] by auto

lemma poseSpecificFeedback_not_overall:
  "x \<in> set (poseSpecificFeedback r t) \<Longrightarrow> x \<notin> set overallMessages"
  using poseSpecificFeedback_heads [of x r t] overallMessages_heads [of x] by auto

lemma filter_none: "(\<And>x. x \<in> set xs \<Longrightarrow> \<not> P x) \<Longrightarrow> filter P xs = []"
  by (induction xs) auto

text \<open>The code run on concrete score results.\<close>

lemma getPoseFeedback_examples:
  "getPoseFeedback (legs_missing 55) side_chest =
     [''You're on the right track. Try to align your body more closely with the template.'',
      sideChestTip]"
  "getPoseFeedback (legs_missing 55) (side_chest\<lparr>template_id := ''front-lat-spread''\<rparr>) =
     [''You're on the right track. Try to align your body more closely with the template.'',
      lowerBodyHint,
      ''Spread your arms wider and push your lats out to create the illusion of a wider upper body.'']"
  "getPoseFeedback
     \<lparr>score = 90, matchedKeypoints = 8, totalKeypoints = 10,
      missingKeypoints = [''left_elbow'', ''right_wrist'']\<rparr> side_chest =
     [''Great job! Your pose is very close to perfect.'',
      ''Make sure your left elbow, right wrist are visible to the camera.'']"
  by (simp_all add: getPoseFeedback_def overallFeedback_def missingFeedback_def
      poseSpecificFeedback_def legs_missing_def side_chest_def sideChestTip_def lowerBodyHint_def
      upperBodyKeypoints_def lowerBodyKeypoints_def Let_def)

text \<open>
  Claim C5. For every score result and template the first message of \<^verbatim>\<open>getPoseFeedback\<close>
  is an overall-score message and no other message of the list is one. The five messages
  are distinct and are selected by bands that include their lower bound: at least 95
  ``mastered'', from 80 ``very close'', from 60 ``good effort'', from 40 ``on the right
  track'', below 40 ``keep practicing''.
\<close>

theorem getPoseFeedback_overall_bands:
  "hd (getPoseFeedback r t) \<in> set overallMessages \<and>
   length (filter (\<lambda>x. x \<in> set overallMessages) (getPoseFeedback r t)) = 1 \<and>
   distinct overallMessages \<and>
   (95 \<le> score r \<longrightarrow> hd (getPoseFeedback r t) = ''Perfect! You've mastered this pose.'') \<and>
   (80 \<le> score r \<and> score r < 95 \<longrightarrow>
      hd (getPoseFeedback r t) = ''Great job! Your pose is very close to perfect.'') \<and>
   (60 \<le> score r \<and> score r < 80 \<longrightarrow>
      hd (getPoseFeedback r t) = ''Good effort! Keep adjusting to improve your score.'') \<and>
   (40 \<le> score r \<and> score r < 60 \<longrightarrow>
      hd (getPoseFeedback r t) =
        ''You're on the right track. Try to align your body more closely with the template.'') \<and>
   (score r < 40 \<longrightarrow>
      hd (getPoseFeedback r t) = ''Keep practicing! Try to match the pose template more closely.'')"
proof -
  have hd: "hd (getPoseFeedback r t) = overallFeedback (score r)"
    by (simp add: getPoseFeedback_def)
  have "filter (\<lambda>x. x \<in> set overallMessages) (missingFeedback r t) = []"
    by (rule filter_none) (rule missingFeedback_not_overall)
  moreover have "filter (\<lambda>x. x \<in> set overallMessages) (poseSpecificFeedback r t) = []"
    by (rule filter_none) (rule poseSpecificFeedback_not_overall)
  ultimately have one:
    "length (filter (\<lambda>x. x \<in> set overallMessages) (getPoseFeedback r t)) = 1"
    by (simp add: getPoseFeedback_def overallFeedback_in)
  have dist: "distinct overallMessages" by (simp add: overallMessages_def)
  show ?thesis
    unfolding hd using one dist overallFeedback_in [of "score r"]
    by (simp add: overallFeedback_def)
qed

theorem getPoseFeedback_overall_bands_witness:
  "(95::real) \<le> 97 \<and>
   hd (getPoseFeedback (legs_missing 97) side_chest) = ''Perfect! You've mastered this pose.'' \<and>
   (80::real) \<le> 80 \<and> (80::real) < 95 \<and>
   hd (getPoseFeedback (legs_missing 80) side_chest) =
     ''Great job! Your pose is very close to perfect.'' \<and>
   (60::real) \<le> 79 \<and> (79::real) < 80 \<and>
   hd (getPoseFeedback (legs_missing 79) side_chest) =
     ''Good effort! Keep adjusting to improve your score.'' \<and>
   (40::real) \<le> 40 \<and> (40::real) < 60 \<and>
   hd (getPoseFeedback (legs_missing 40) side_chest) =
     ''You're on the right track. Try to align your body more closely with the template.'' \<and>
   (0::real) < 40 \<and>
   hd (getPoseFeedback (legs_missing 0) side_chest) =
     ''Keep practicing! Try to match the pose template more closely.''"
  using getPoseFeedback_overall_bands [of "legs_missing 97" side_chest]
    getPoseFeedback_overall_bands [of "legs_missing 80" side_chest]
    getPoseFeedback_overall_bands [of "legs_missing 79" side_chest]
    getPoseFeedback_overall_bands [of "legs_missing 40" side_chest]
    getPoseFeedback_overall_bands [of "legs_missing 0" side_chest]
  by (simp add: legs_missing_def)

text \<open>
  Claim C9. For a template with id \<^verbatim>\<open>side-chest\<close> and every score result, the list of
  \<^verbatim>\<open>getPoseFeedback\<close> never contains the lower-body hint, whatever is missing; with a score
  below 70 it ends with the side-chest tip, and with a score of at least 70 the tip does
  not appear.
\<close>

theorem getPoseFeedback_side_chest:
  assumes "template_id t = ''side-chest''"
  shows "lowerBodyHint \<notin> set (getPoseFeedback r t) \<and>
         (score r < 70 \<longrightarrow> last (getPoseFeedback r t) = sideChestTip) \<and>
         (70 \<le> score r \<longrightarrow> sideChestTip \<notin> set (getPoseFeedback r t))"
proof -
  have tip: "poseSpecificFeedback r t = (if score r < 70 then [sideChestTip] else [])"
    using assms by (simp add: poseSpecificFeedback_def sideChestTip_def)
  have m1: "lowerBodyHint \<notin> set (missingFeedback r t)"
    using assms by (auto simp add: missingFeedback_def Let_def lowerBodyHint_def)
  have m2: "sideChestTip \<notin> set (missingFeedback r t)"
    using missingFeedback_heads [of sideChestTip r t] by (auto simp add: sideChestTip_def)
  have o1: "lowerBodyHint \<noteq> overallFeedback (score r)"
    by (simp add: lowerBodyHint_def overallFeedback_def)
  have o2: "sideChestTip \<noteq> overallFeedback (score r)"
    by (simp add: sideChestTip_def overallFeedback_def)
  have o3: "lowerBodyHint \<noteq> sideChestTip" by (simp add: lowerBodyHint_def sideChestTip_def)
  show ?thesis
    using m1 m2 o1 o2 o3 by (simp add: getPoseFeedback_def tip)
qed

theorem getPoseFeedback_side_chest_witness:
  "template_id side_chest = ''side-chest'' \<and>
   score (legs_missing 55) < 70 \<and>
   last (getPoseFeedback (legs_missing 55) side_chest) = sideChestTip \<and>
   lowerBodyHint \<notin> set (getPoseFeedback (legs_missing 55) side_chest) \<and>
   70 \<le> score (legs_missing 70) \<and>
   sideChestTip \<notin> set (getPoseFeedback (legs_missing 70) side_chest)"
  using getPoseFeedback_side_chest [of side_chest "legs_missing 55"]
    getPoseFeedback_side_chest [of side_chest "legs_missing 70"]
  by (simp add: side_chest_def legs_missing_def)

section \<open>Properties of analyzePose\<close>

text \<open>The divisor of a slope is at least 0.1, so the slope always has a value.\<close>

lemma slope_defined:
  "slope l r = Some \<bar>(kp_y r - kp_y l) / max (1 / 10) (kp_x r - kp_x l)\<bar>"
proof -
  have "max (1 / 10) (kp_x r - kp_x l) \<noteq> 0" by (simp add: max_def)
  then show ?thesis by (simp add: slope_def js_div_def)
qed

text \<open>
  Every block of checks completes, appends items of its own only, and clears the flag exactly
  when it appends.
\<close>

lemma levelCheck_grows:
  "\<exists>xs. levelCheck a b item st = Some (fst st @ xs, snd st \<and> xs = []) \<and> (xs = [] \<or> xs = [item])"
proof (cases a)
  case None
  then have "levelCheck a b item st = Some (fst st @ [], snd st \<and> [] = [])"
    by (simp add: levelCheck_def)
  then show ?thesis by blast
next
  case (Some l)
  note a = this
  show ?thesis
  proof (cases b)
    case None
    with a have "levelCheck a b item st = Some (fst st @ [], snd st \<and> [] = [])"
      by (simp add: levelCheck_def)
    then show ?thesis by blast
  next
    case (Some r)
    obtain s where s: "slope l r = Some s" using slope_defined by blast
    show ?thesis
    proof (cases "s > 1 / 10")
      case True
      with a Some s have
        "levelCheck a b item st = Some (fst st @ [item], snd st \<and> [item] = [])"
        by (simp add: levelCheck_def push_def)
      then show ?thesis by blast
    next
      case False
      with a Some s have "levelCheck a b item st = Some (fst st @ [], snd st \<and> [] = [])"
        by (simp add: levelCheck_def)
      then show ?thesis by blast
    qed
  qed
qed

lemma upperBodyFeedback_grows:
  "\<exists>xs. upperBodyFeedback g u msg st = Some (fst st @ xs, snd st \<and> xs = []) \<and>
        (xs = [] \<or> xs = [\<lparr>message = msg, severity = info, part = Some ''shoulders''\<rparr>])"
proof (cases u)
  case True
  then show ?thesis using levelCheck_grows by (simp add: upperBodyFeedback_def)
next
  case False
  then have "upperBodyFeedback g u msg st = Some (fst st @ [], snd st \<and> [] = [])"
    by (simp add: upperBodyFeedback_def)
  then show ?thesis by blast
qed

lemma lowerBodyFeedback_grows:
  "\<exists>xs. lowerBodyFeedback g lo st = Some (fst st @ xs, snd st \<and> xs = []) \<and>
        set xs \<subseteq> {\<lparr>message = ''Try to level your hips'', severity = info, part = Some ''hips''\<rparr>,
                  \<lparr>message = ''Try to level your knees'', severity = info, part = Some ''knees''\<rparr>}"
proof (cases lo)
  case True
  let ?hips = "\<lparr>message = ''Try to level your hips'', severity = info, part = Some ''hips''\<rparr>"
  let ?knees = "\<lparr>message = ''Try to level your knees'', severity = info, part = Some ''knees''\<rparr>"
  from levelCheck_grows [of "g ''left_hip''" "g ''right_hip''" ?hips st]
  obtain ys where h: "levelCheck (g ''left_hip'') (g ''right_hip'') ?hips st =
        Some (fst st @ ys, snd st \<and> ys = [])"
    and hy: "ys = [] \<or> ys = [?hips]"
    by blast
  let ?a = "(fst st @ ys, snd st \<and> ys = [])"
  from levelCheck_grows [of "g ''left_knee''" "g ''right_knee''" ?knees ?a]
  obtain zs where k: "levelCheck (g ''left_knee'') (g ''right_knee'') ?knees ?a =
        Some (fst ?a @ zs, snd ?a \<and> zs = [])"
    and kz: "zs = [] \<or> zs = [?knees]"
    by blast
  have "lowerBodyFeedback g lo st = Some (fst st @ (ys @ zs), snd st \<and> (ys @ zs) = [])"
    using True h k by (simp add: lowerBodyFeedback_def)
  moreover have "set (ys @ zs) \<subseteq> {?hips, ?knees}" using hy kz by auto
  ultimately show ?thesis by blast
next
  case False
  then have "lowerBodyFeedback g lo st = Some (fst st @ [], snd st \<and> [] = [])"
    by (simp add: lowerBodyFeedback_def)
  then show ?thesis by (intro exI [of _ "[]"]) simp
qed

lemma backPostureFeedback_grows:
  "\<exists>xs. backPostureFeedback g u lo st = (fst st @ xs, snd st \<and> xs = []) \<and>
        set xs \<subseteq> {\<lparr>message = ''Try to align your shoulders over your hips'', severity = info,
                   part = Some ''back''\<rparr>}"
proof -
  let ?posture = "\<lparr>message = ''Try to align your shoulders over your hips'', severity = info,
                 part = Some ''back''\<rparr>"
  have "backPostureFeedback g u lo st = st \<or> backPostureFeedback g u lo st = push ?posture st"
    by (simp add: backPostureFeedback_def Let_def split: option.splits)
  then show ?thesis
  proof
    assume "backPostureFeedback g u lo st = st"
    then have "backPostureFeedback g u lo st = (fst st @ [], snd st \<and> [] = [])" by simp
    then show ?thesis by (intro exI [of _ "[]"]) simp
  next
    assume "backPostureFeedback g u lo st = push ?posture st"
    then have "backPostureFeedback g u lo st = (fst st @ [?posture], snd st \<and> [?posture] = [])"
      by (simp add: push_def)
    moreover have "set [?posture] \<subseteq> {?posture}" by simp
    ultimately show ?thesis by blast
  qed
qed

lemma faceFeedback_grows:
  "\<exists>xs. faceFeedback g f st = Some (fst st @ xs, snd st \<and> xs = []) \<and>
        set xs \<subseteq> {\<lparr>message = ''Try to level your head for a better pose'', severity = info,
                   part = Some ''head''\<rparr>,
                  \<lparr>message = ''Try to center your face in the frame'', severity = info,
                   part = Some ''position''\<rparr>}"
proof (cases f)
  case True
  let ?head = "\<lparr>message = ''Try to level your head for a better pose'', severity = info,
                 part = Some ''head''\<rparr>"
  let ?pos = "\<lparr>message = ''Try to center your face in the frame'', severity = info,
                part = Some ''position''\<rparr>"
  from levelCheck_grows [of "g ''left_eye''" "g ''right_eye''" ?head st]
  obtain ys where h: "levelCheck (g ''left_eye'') (g ''right_eye'') ?head st =
        Some (fst st @ ys, snd st \<and> ys = [])"
    and hy: "ys = [] \<or> ys = [?head]"
    by blast
  let ?a = "(fst st @ ys, snd st \<and> ys = [])"
  let ?C = "(case g ''nose'' of
               Some nose \<Rightarrow>
                 (let centerX = 1 / 2;
                      distanceFromCenter = \<bar>kp_x nose - centerX\<bar>
                  in if distanceFromCenter > 2 / 10 then push ?pos ?a else ?a)
             | None \<Rightarrow> ?a)"
  have f: "faceFeedback g f st = Some ?C" using True h by (simp add: faceFeedback_def)
  have "?C = ?a \<or> ?C = push ?pos ?a" by (simp add: Let_def split: option.splits)
  then show ?thesis
  proof
    assume "?C = ?a"
    with f have "faceFeedback g f st = Some (fst st @ ys, snd st \<and> ys = [])" by simp
    moreover have "set ys \<subseteq> {?head, ?pos}" using hy by auto
    ultimately show ?thesis by blast
  next
    assume "?C = push ?pos ?a"
    with f have "faceFeedback g f st = Some (fst st @ (ys @ [?pos]), snd st \<and> (ys @ [?pos]) = [])"
      by (simp add: push_def)
    moreover have "set (ys @ [?pos]) \<subseteq> {?head, ?pos}" using hy by auto
    ultimately show ?thesis by blast
  qed
next
  case False
  then have "faceFeedback g f st = Some (fst st @ [], snd st \<and> [] = [])"
    by (simp add: faceFeedback_def)
  then show ?thesis by (intro exI [of _ "[]"]) simp
qed

lemma fitnessChecks_defined: "\<exists>st'. fitnessChecks g u lo st = Some st'"
proof -
  obtain st1 where "upperBodyFeedback g u ''Try to level your shoulders'' st = Some st1"
    using upperBodyFeedback_grows by blast
  moreover obtain st2 where "lowerBodyFeedback g lo st1 = Some st2"
    using lowerBodyFeedback_grows by blast
  ultimately show ?thesis by (simp add: fitnessChecks_def)
qed

lemma photographyChecks_defined: "\<exists>st'. photographyChecks g f u st = Some st'"
proof -
  obtain st1 where "faceFeedback g f st = Some st1"
    using faceFeedback_grows by blast
  moreover obtain st2 where
    "upperBodyFeedback g u ''Level your shoulders for a more balanced pose'' st1 = Some st2"
    using upperBodyFeedback_grows by blast
  ultimately show ?thesis by (simp add: photographyChecks_def)
qed


text \<open>The code run on concrete frames.\<close>

lemma analyzePose_examples:
  "analyzePose stacked_pose fitness =
     Some [\<lparr>message = ''Try to level your shoulders'', severity = info,
            part = Some ''shoulders''\<rparr>]"
  "analyzePose level_pose fitness =
     Some [\<lparr>message = ''PERFECT! Upper body form is excellent!'', severity = success,
            part = None\<rparr>]"
  "analyzePose stacked_pose photography =
     Some [\<lparr>message = ''Try to center your face in the frame'', severity = info,
            part = Some ''position''\<rparr>,
           \<lparr>message = ''Level your shoulders for a more balanced pose'', severity = info,
            part = Some ''shoulders''\<rparr>]"
  by (simp_all add: analyzePose_def stacked_pose_def level_pose_def keypoint_at_def
      score_above_def nameMap_def fitnessChecks_def photographyChecks_def faceFeedback_def
      upperBodyFeedback_def lowerBodyFeedback_def backPostureFeedback_def positiveFeedback_def
      levelCheck_def slope_def js_div_def push_def Let_def)

text \<open>
  Claim C8. In either mode, a pose whose keypoints include fewer than three of confidence
  strictly above 0.2 (a pose with an empty keypoint list among them) yields exactly one
  message: the low-confidence message with severity \<^verbatim>\<open>info\<close>. No geometric check adds a
  message.
\<close>

theorem analyzePose_low_confidence:
  assumes "pose_keypoints p = Some ks"
    and "length (filter (\<lambda>k. case kp_score k of None \<Rightarrow> False | Some s \<Rightarrow> s > 2 / 10) ks) < 3"
  shows "analyzePose p m =
           Some [\<lparr>message = ''Move closer to the camera or adjust lighting'', severity = info,
                  part = None\<rparr>]"
proof -
  have eq: "score_above (2 / 10) c = (case c of None \<Rightarrow> False | Some s \<Rightarrow> s > 2 / 10)" for c
    by (auto simp add: score_above_def split: option.splits)
  have "length (filter (\<lambda>k. score_above (2 / 10) (kp_score k)) ks) < 3"
    using assms(2) by (simp only: eq)
  with assms(1) show ?thesis by (simp add: analyzePose_def Let_def)
qed

theorem analyzePose_low_confidence_witness:
  "analyzePose sparse_pose fitness =
     Some [\<lparr>message = ''Move closer to the camera or adjust lighting'', severity = info,
            part = None\<rparr>] \<and>
   analyzePose \<lparr>pose_keypoints = Some []\<rparr> photography =
     Some [\<lparr>message = ''Move closer to the camera or adjust lighting'', severity = info,
            part = None\<rparr>]"
  using analyzePose_low_confidence [of sparse_pose
      "[keypoint_at ''nose'' 150 50 0.9, keypoint_at ''left_shoulder'' 100 100 0.9,
        keypoint_at ''right_shoulder'' 200 140 0.2]" fitness]
    analyzePose_low_confidence [of "\<lparr>pose_keypoints = Some []\<rparr>" "[]" photography]
  by (simp add: sparse_pose_def keypoint_at_def)

text \<open>
  Claim C10. The divisor of every slope is \<open>max(0.1, dx)\<close>, which is never zero, so the
  slope is defined for every pair of keypoints, also when they share the same x; and
  \<^verbatim>\<open>analyzePose\<close> returns a feedback list, never an empty one, for every pose and mode.
\<close>

theorem analyzePose_never_divides_by_zero:
  "max (1 / 10) (kp_x r - kp_x l) \<noteq> 0 \<and>
   slope l r = Some \<bar>(kp_y r - kp_y l) / max (1 / 10) (kp_x r - kp_x l)\<bar> \<and>
   (\<exists>fb. analyzePose p m = Some fb \<and> fb \<noteq> [])"
proof (intro conjI)
  show "max (1 / 10) (kp_x r - kp_x l) \<noteq> 0" by (simp add: max_def)
  show "slope l r = Some \<bar>(kp_y r - kp_y l) / max (1 / 10) (kp_x r - kp_x l)\<bar>"
    by (rule slope_defined)
  show "\<exists>fb. analyzePose p m = Some fb \<and> fb \<noteq> []"
  proof (cases "pose_keypoints p")
    case None
    then show ?thesis by (simp add: analyzePose_def)
  next
    case (Some ks)
    let ?kps = "filter (\<lambda>kp. score_above (2 / 10) (kp_score kp)) ks"
    show ?thesis
    proof (cases "length ?kps < 3")
      case True
      with Some show ?thesis by (simp add: analyzePose_def Let_def)
    next
      case False
      show ?thesis
      proof (cases m)
        case fitness
        obtain st' where
          "fitnessChecks (\<lambda>n. nameMap ?kps (Some n))
             (nameMap ?kps (Some ''left_shoulder'') \<noteq> None \<and>
              nameMap ?kps (Some ''right_shoulder'') \<noteq> None)
             (nameMap ?kps (Some ''left_hip'') \<noteq> None \<and>
              nameMap ?kps (Some ''right_hip'') \<noteq> None) ([], True) = Some st'"
          using fitnessChecks_defined by blast
        with Some False fitness show ?thesis
          by (auto simp add: analyzePose_def Let_def)
      next
        case photography
        obtain st' where
          "photographyChecks (\<lambda>n. nameMap ?kps (Some n))
             (nameMap ?kps (Some ''nose'') \<noteq> None \<or>
              nameMap ?kps (Some ''left_eye'') \<noteq> None \<and>
              nameMap ?kps (Some ''right_eye'') \<noteq> None)
             (nameMap ?kps (Some ''left_shoulder'') \<noteq> None \<and>
              nameMap ?kps (Some ''right_shoulder'') \<noteq> None) ([], True) = Some st'"
          using photographyChecks_defined by blast
        with Some False photography show ?thesis
          by (auto simp add: analyzePose_def Let_def)
      qed
    qed
  qed
qed

theorem analyzePose_never_divides_by_zero_witness:
  "kp_x (keypoint_at ''left_shoulder'' 100 100 0.9) =
     kp_x (keypoint_at ''right_shoulder'' 100 140 0.9) \<and>
   slope (keypoint_at ''left_shoulder'' 100 100 0.9) (keypoint_at ''right_shoulder'' 100 140 0.9) =
     Some 400 \<and>
   (\<exists>fb. analyzePose stacked_pose fitness = Some fb \<and> fb \<noteq> []) \<and>
   (\<exists>fb. analyzePose stacked_pose photography = Some fb \<and> fb \<noteq> [])"
  using analyzePose_never_divides_by_zero [of "keypoint_at ''right_shoulder'' 100 140 0.9"
      "keypoint_at ''left_shoulder'' 100 100 0.9" stacked_pose fitness]
    analyzePose_never_divides_by_zero [of "keypoint_at ''right_shoulder'' 100 140 0.9"
      "keypoint_at ''left_shoulder'' 100 100 0.9" stacked_pose photography]
  by (simp add: keypoint_at_def)

subsection \<open>The shoulder check, for every arithmetic\<close>

text \<open>
  With \<open>partial_reals\<close> as the arithmetic, \<^verbatim>\<open>analyzePose\<close> is the real-number model.
\<close>

lemma slope_partial_reals: "slope_js partial_reals l r = slope l r"
  by (simp add: slope_js_def slope_def partial_reals_fields lift2_simps js_div_def)

lemma levelCheck_partial_reals:
  "levelCheck a b item st = Some (levelCheck_js partial_reals a b item st)"
proof (cases a)
  case None
  then show ?thesis by (simp add: levelCheck_def levelCheck_js_def)
next
  case (Some l)
  note a = this
  show ?thesis
  proof (cases b)
    case None
    with a show ?thesis by (simp add: levelCheck_def levelCheck_js_def)
  next
    case (Some r)
    obtain s where s: "slope l r = Some s" using slope_defined by blast
    with a Some show ?thesis
      by (simp add: levelCheck_def levelCheck_js_def slope_partial_reals partial_reals_fields)
  qed
qed

lemma upperBodyFeedback_partial_reals:
  "upperBodyFeedback g u msg st = Some (upperBodyFeedback_js partial_reals g u msg st)"
  by (simp add: upperBodyFeedback_def upperBodyFeedback_js_def levelCheck_partial_reals)

lemma lowerBodyFeedback_partial_reals:
  "lowerBodyFeedback g lo st = Some (lowerBodyFeedback_js partial_reals g lo st)"
  by (simp add: lowerBodyFeedback_def lowerBodyFeedback_js_def levelCheck_partial_reals)

lemma backPostureFeedback_partial_reals:
  "backPostureFeedback g u lo st = backPostureFeedback_js partial_reals g u lo st"
  by (simp add: backPostureFeedback_def backPostureFeedback_js_def partial_reals_fields
      lift2_simps js_div_def Let_def split: option.splits)

lemma faceFeedback_partial_reals:
  "faceFeedback g f st = Some (faceFeedback_js partial_reals g f st)"
  by (simp add: faceFeedback_def faceFeedback_js_def levelCheck_partial_reals
      partial_reals_fields lift2_simps Let_def split: option.splits)

lemma fitnessChecks_partial_reals:
  "fitnessChecks g u lo st = Some (fitnessChecks_js partial_reals g u lo st)"
  by (simp add: fitnessChecks_def fitnessChecks_js_def upperBodyFeedback_partial_reals
      lowerBodyFeedback_partial_reals backPostureFeedback_partial_reals)

lemma photographyChecks_partial_reals:
  "photographyChecks g f u st = Some (photographyChecks_js partial_reals g f u st)"
  by (simp add: photographyChecks_def photographyChecks_js_def upperBodyFeedback_partial_reals
      faceFeedback_partial_reals)

lemma analyzePose_partial_reals:
  "analyzePose p m = Some (analyzePose_js partial_reals p m)"
  by (cases m)
     (simp_all add: analyzePose_def analyzePose_js_def score_above_partial_reals
        fitnessChecks_partial_reals photographyChecks_partial_reals Let_def
        split: option.splits)







end
